theory Spec2Isabelle
  imports Complex_Main
begin

section \<open>Values thrown by the program\<close>

text \<open>
  A JavaScript \<^verbatim>\<open>throw\<close> (or a rejected promise) carries a value, and any value can be thrown.
  The handlers of this program do four things to it: they test \<^verbatim>\<open>e instanceof Error\<close>, read
  \<^verbatim>\<open>e.message\<close>, render it with \<^verbatim>\<open>String(e)\<close> and serialise it with \<^verbatim>\<open>JSON.stringify(e)\<close>. A thrown
  value is kept as what these give:
  \<^item> an \<^verbatim>\<open>Error\<close> object, with its message;
  \<^item> another object or primitive, with the text \<^verbatim>\<open>String(e)\<close> gives and its \<^verbatim>\<open>message\<close> property,
    when it has one;
  \<^item> \<^verbatim>\<open>undefined\<close> and \<^verbatim>\<open>null\<close>, on which reading a property throws;
  \<^item> a value as one of the above that \<^verbatim>\<open>JSON.stringify\<close> refuses (a circular structure, a
    \<^verbatim>\<open>BigInt\<close> inside), with the message of the \<^verbatim>\<open>TypeError\<close> it throws.
\<close>

datatype thrown =
    ErrorObj string
  | NonError string "string option"
  | ThrownUndefined
  | ThrownNull
  | Unserialisable thrown string

definition quoted :: "string \<Rightarrow> string" where
  "quoted k = [CHR 0x27] @ k @ [CHR 0x27]"

text \<open>\<^verbatim>\<open>e.message\<close>: the value of the property (\<open>None\<close> for \<^verbatim>\<open>undefined\<close>), or the \<^verbatim>\<open>TypeError\<close> that
  reading it throws.\<close>

fun message_of :: "thrown \<Rightarrow> thrown + string option" where
  "message_of (ErrorObj m) = Inr (Some m)"
| "message_of (NonError s mp) = Inr mp"
| "message_of ThrownUndefined =
     Inl (ErrorObj (''Cannot read properties of undefined (reading '' @ quoted ''message'' @ '')''))"
| "message_of ThrownNull =
     Inl (ErrorObj (''Cannot read properties of null (reading '' @ quoted ''message'' @ '')''))"
| "message_of (Unserialisable e m) = message_of e"

text \<open>\<^verbatim>\<open>(e instanceof Error) ? e.message : String(e)\<close>.\<close>

fun thrown_message :: "thrown \<Rightarrow> string" where
  "thrown_message (ErrorObj m) = m"
| "thrown_message (NonError s mp) = s"
| "thrown_message ThrownUndefined = ''undefined''"
| "thrown_message ThrownNull = ''null''"
| "thrown_message (Unserialisable e m) = thrown_message e"

text \<open>\<^verbatim>\<open>JSON.stringify(e)\<close>: the \<^verbatim>\<open>TypeError\<close> it throws, if it throws.\<close>

fun stringify_throws :: "thrown \<Rightarrow> thrown option" where
  "stringify_throws (Unserialisable e m) = Some (ErrorObj m)"
| "stringify_throws e = None"

section \<open>Resolution cache: \<^verbatim>\<open>getVodUrlForEvent\<close> (main.ts, lines 21-67)\<close>

text \<open>
  \<^verbatim>\<open>type VodUrlCacheEntry = { vodUrl?: string; fetchedAt?: number; inFlight?: Promise<string> }\<close>.
  A promise is an object; the model names it by a handle. \<^verbatim>\<open>Date.now()\<close> is an integer
  number of milliseconds.
\<close>

type_synonym promise_id = nat
type_synonym call_id = nat

record VodUrlCacheEntry =
  vodUrl :: "string option"
  fetchedAt :: "int option"
  inFlight :: "promise_id option"

record options =
  cacheKey :: string
  serverUrl :: string
  eventId :: string

text \<open>The fields of the event (\<^verbatim>\<open>DetectionData\<close>) that the template string interpolates,
  each as the text it is rendered to.\<close>

record DetectionData =
  camera :: string
  start_time :: string
  end_time :: string

definition VOD_URL_CACHE_TTL_MS :: int where
  "VOD_URL_CACHE_TTL_MS = 5 * 60 * 1000"

text \<open>
  The promise stored in \<^verbatim>\<open>entry.inFlight\<close> is the one of the inner \<^verbatim>\<open>async\<close> function. While
  it is pending the model keeps what its closure captured (the key of the entry object and
  the options of the call that created it) and the invocations of \<^verbatim>\<open>getVodUrlForEvent\<close>
  suspended at \<^verbatim>\<open>await entry.inFlight\<close>, in the order they registered.
\<close>

datatype promise = Pending string options "call_id list" | Settled "thrown + string"

text \<open>
  The module state: the map \<^verbatim>\<open>vodUrlCache\<close> and the promises. An entry object, once stored under
  a key, is never replaced or deleted, so the key identifies the object. Three fields are
  bookkeeping of the model: \<open>axiosGets\<close> logs every \<^verbatim>\<open>axios.get\<close> of the inner function
  (the cache key it was started for and the URL requested, oldest first), \<open>returned\<close> holds
  what each finished invocation returned (\<open>Inr\<close>) or threw (\<open>Inl\<close>), and the two counters
  give fresh handles.
\<close>

record cache_state =
  vodUrlCache :: "string \<rightharpoonup> VodUrlCacheEntry"
  promises :: "promise_id \<rightharpoonup> promise"
  axiosGets :: "(string \<times> string) list"
  returned :: "call_id \<rightharpoonup> thrown + string"
  nextPromise :: promise_id
  nextCall :: call_id

definition empty_entry :: VodUrlCacheEntry where
  "empty_entry = \<lparr>vodUrl = None, fetchedAt = None, inFlight = None\<rparr>"

definition initial_state :: cache_state where
  "initial_state = \<lparr>vodUrlCache = Map.empty, promises = Map.empty, axiosGets = [],
     returned = Map.empty, nextPromise = 0, nextCall = 0\<rparr>"

text \<open>
  Line 40: \<^verbatim>\<open>cached?.vodUrl && cached.fetchedAt && now - cached.fetchedAt < VOD_URL_CACHE_TTL_MS\<close>.
  A string is truthy when it is not empty, a number when it is not zero.
\<close>

definition cache_hit :: "VodUrlCacheEntry option \<Rightarrow> int \<Rightarrow> bool" where
  "cache_hit cached now =
     (case cached of
        None \<Rightarrow> False
      | Some e \<Rightarrow>
          (case vodUrl e of
             None \<Rightarrow> False
           | Some u \<Rightarrow> u \<noteq> [] \<and>
               (case fetchedAt e of
                  None \<Rightarrow> False
                | Some t \<Rightarrow> t \<noteq> 0 \<and> now - t < VOD_URL_CACHE_TTL_MS)))"

definition entry_of :: "cache_state \<Rightarrow> string \<Rightarrow> VodUrlCacheEntry" where
  "entry_of st k = (case vodUrlCache st k of None \<Rightarrow> empty_entry | Some e \<Rightarrow> e)"

definition upd_entry ::
  "string \<Rightarrow> (VodUrlCacheEntry \<Rightarrow> VodUrlCacheEntry) \<Rightarrow> cache_state \<Rightarrow> cache_state" where
  "upd_entry k f st = st\<lparr>vodUrlCache := (vodUrlCache st)(k \<mapsto> f (entry_of st k))\<rparr>"

text \<open>Lines 62-63: the invocation registers on the promise and suspends. On a promise that is
  already settled the continuation runs with the promise's outcome and the \<^verbatim>\<open>finally\<close> block
  clears the marker.\<close>

definition resume :: "thrown + string \<Rightarrow> string \<Rightarrow> cache_state \<Rightarrow> call_id \<Rightarrow> cache_state" where
  "resume outcome k st cid =
     upd_entry k (\<lambda>e. e\<lparr>inFlight := None\<rparr>) (st\<lparr>returned := (returned st)(cid \<mapsto> outcome)\<rparr>)"

definition await_inFlight :: "string \<Rightarrow> promise_id \<Rightarrow> call_id \<Rightarrow> cache_state \<Rightarrow> cache_state" where
  "await_inFlight k p cid st =
     (case promises st p of
        Some (Pending k' opts ws) \<Rightarrow> st\<lparr>promises := (promises st)(p \<mapsto> Pending k' opts (ws @ [cid]))\<rparr>
      | Some (Settled outcome) \<Rightarrow> resume outcome k st cid
      | None \<Rightarrow> st)"

text \<open>
  The part of \<^verbatim>\<open>getVodUrlForEvent\<close> that runs when it is called, up to its first suspension
  (lines 38-63). The invocation gets the handle \<open>nextCall st\<close>. When no computation is marked
  in flight, the inner function is started: it runs up to \<^verbatim>\<open>await axios.get(eventUrl, ...)\<close>,
  so the request is issued within the call.
\<close>

definition getVodUrlForEvent_call :: "cache_state \<Rightarrow> options \<Rightarrow> int \<Rightarrow> cache_state" where
  "getVodUrlForEvent_call st opts now =
     (let cid = nextCall st;
          st0 = st\<lparr>nextCall := Suc cid\<rparr>;
          k = cacheKey opts;
          cached = vodUrlCache st0 k
      in if cache_hit cached now
         then st0\<lparr>returned := (returned st0)(cid \<mapsto> Inr (the (vodUrl (the cached))))\<rparr>
         else
           let st1 = upd_entry k (\<lambda>e. e) st0
           in (case inFlight (entry_of st1 k) of
                 Some p \<Rightarrow> await_inFlight k p cid st1
               | None \<Rightarrow>
                   let p = nextPromise st1;
                       eventUrl = serverUrl opts @ ''/events/'' @ eventId opts;
                       st2 = st1\<lparr>nextPromise := Suc p,
                                 axiosGets := axiosGets st1 @ [(k, eventUrl)],
                                 promises := (promises st1)(p \<mapsto> Pending k opts [])\<rparr>;
                       st3 = upd_entry k (\<lambda>e. e\<lparr>inFlight := Some p\<rparr>) st2
                   in await_inFlight k p cid st3))"

text \<open>
  Lines 53-58, the inner function after \<^verbatim>\<open>axios.get\<close> has answered: \<open>resp\<close> is the rejection
  of the request or the event it delivered. \<^verbatim>\<open>new URL(options.serverUrl).origin\<close> is the
  platform's URL parser, a parameter here: it throws (\<open>Inl\<close>) on an invalid URL.
\<close>

definition compute_vodUrl ::
  "(string \<Rightarrow> thrown + string) \<Rightarrow> options \<Rightarrow> thrown + DetectionData \<Rightarrow> thrown + string" where
  "compute_vodUrl URL_origin opts resp =
     (case resp of
        Inl e \<Rightarrow> Inl e
      | Inr event \<Rightarrow>
          (case URL_origin (serverUrl opts) of
             Inl e \<Rightarrow> Inl e
           | Inr frigateOrigin \<Rightarrow>
               Inr (frigateOrigin @ ''/vod/'' @ camera event @ ''/start/'' @ start_time event
                    @ ''/end/'' @ end_time event @ ''/index.m3u8'')))"

text \<open>
  The answer of the backend arrives for the pending promise \<open>p\<close> at time \<open>now\<close>. The inner
  function stores the URL and the timestamp on success and settles the promise; then every
  invocation awaiting it runs its continuation, in registration order: it returns or rethrows
  the outcome, and its \<^verbatim>\<open>finally\<close> block clears \<^verbatim>\<open>entry.inFlight\<close>. The reactions of one promise
  are consecutive jobs of the same microtask checkpoint, so no new request is dispatched
  between them and the whole is one step.
\<close>

definition settle ::
  "(string \<Rightarrow> thrown + string) \<Rightarrow> cache_state \<Rightarrow> promise_id \<Rightarrow> thrown + DetectionData \<Rightarrow> int
     \<Rightarrow> cache_state" where
  "settle URL_origin st p resp now =
     (case promises st p of
        Some (Pending k opts ws) \<Rightarrow>
          let outcome = compute_vodUrl URL_origin opts resp;
              st1 = (case outcome of
                       Inl e \<Rightarrow> st
                     | Inr u \<Rightarrow> upd_entry k (\<lambda>e. e\<lparr>vodUrl := Some u, fetchedAt := Some now\<rparr>) st);
              st2 = st1\<lparr>promises := (promises st1)(p \<mapsto> Settled outcome)\<rparr>
          in foldl (resume outcome k) st2 ws
      | _ \<Rightarrow> st)"

text \<open>
  What can happen to the cache, one event at a time: a request handler calls
  \<^verbatim>\<open>getVodUrlForEvent\<close>, or the backend answers a pending computation. The order of the events
  is the schedule; \<open>run\<close> plays a schedule from a state.
\<close>

datatype event =
    Call options int
  | Settle promise_id "thrown + DetectionData" int

fun step :: "(string \<Rightarrow> thrown + string) \<Rightarrow> cache_state \<Rightarrow> event \<Rightarrow> cache_state" where
  "step URL_origin st (Call opts now) = getVodUrlForEvent_call st opts now"
| "step URL_origin st (Settle p resp now) = settle URL_origin st p resp now"

definition run :: "(string \<Rightarrow> thrown + string) \<Rightarrow> cache_state \<Rightarrow> event list \<Rightarrow> cache_state" where
  "run URL_origin st evs = foldl (step URL_origin) st evs"

definition settles :: "promise_id \<Rightarrow> event \<Rightarrow> bool" where
  "settles p ev = (case ev of Call opts now \<Rightarrow> False | Settle q resp now \<Rightarrow> q = p)"

text \<open>The requests that were issued for the entry of key \<open>k\<close>.\<close>

definition gets_for :: "string \<Rightarrow> cache_state \<Rightarrow> (string \<times> string) list" where
  "gets_for k st = filter (\<lambda>g. fst g = k) (axiosGets st)"

text \<open>
  The invariant of the data model: every pending computation is the one its entry marks as in
  flight (so a key has at most one), and its handle has been handed out.
\<close>

definition single_flight_inv :: "cache_state \<Rightarrow> bool" where
  "single_flight_inv st \<longleftrightarrow>
     (\<forall>p k opts ws. promises st p = Some (Pending k opts ws) \<longrightarrow>
        inFlight (entry_of st k) = Some p \<and> p < nextPromise st)"

section \<open>Streaming gateway: \<^verbatim>\<open>onRequest\<close> (main.ts, lines 445-566)\<close>

text \<open>
  \<^verbatim>\<open>new URL(`http://localhost${request.url}`)\<close> is the platform's parser, a parameter of the
  model: it throws or gives the path and the query parameters, in order.
  \<^verbatim>\<open>searchParams.get(name)\<close> is the first value of that name, or \<^verbatim>\<open>null\<close>.
\<close>

record parsed_url =
  pathname :: string
  searchParams :: "(string \<times> string) list"

definition searchParams_get :: "parsed_url \<Rightarrow> string \<Rightarrow> string option" where
  "searchParams_get u name = map_of (searchParams u) name"

text \<open>\<^verbatim>\<open>!deviceId\<close>: \<^verbatim>\<open>null\<close> and the empty string are falsy.\<close>

definition truthy_str :: "string option \<Rightarrow> bool" where
  "truthy_str v = (case v of None \<Rightarrow> False | Some s \<Rightarrow> s \<noteq> [])"

text \<open>\<^verbatim>\<open>pathname.split('/')\<close>: the pieces between the slashes, empty pieces included.\<close>

fun split_slash :: "string \<Rightarrow> string list" where
  "split_slash [] = [[]]"
| "split_slash (c # cs) =
     (if c = CHR ''/'' then [] # split_slash cs
      else (case split_slash cs of
              [] \<Rightarrow> [[c]]
            | piece # pieces \<Rightarrow> (c # piece) # pieces))"

text \<open>An array element that may be missing (\<^verbatim>\<open>undefined\<close>), as the destructuring of line 461
  reads the sixth piece.\<close>

definition element :: "'a list \<Rightarrow> nat \<Rightarrow> 'a option" where
  "element xs n = (if n < length xs then Some (xs ! n) else None)"

text \<open>\<^verbatim>\<open>toLowerCase()\<close> on the letters A to Z; no other character has \<^verbatim>\<open>s\<close>, \<^verbatim>\<open>e\<close> or \<^verbatim>\<open>g\<close> as its
  lower case, so the comparison with \<^verbatim>\<open>'seg'\<close> of line 484 is decided by these.\<close>

definition toLowerCase_char :: "char \<Rightarrow> char" where
  "toLowerCase_char c =
     (case map_of (zip ''ABCDEFGHIJKLMNOPQRSTUVWXYZ'' ''abcdefghijklmnopqrstuvwxyz'') c of
        None \<Rightarrow> c
      | Some l \<Rightarrow> l)"

definition toLowerCase :: "string \<Rightarrow> string" where
  "toLowerCase s = map toLowerCase_char s"

text \<open>
  The collaborators of the handler are not part of this repository's two files; each call
  to one of them is a parameter that gives the outcome of the call: the mixin of a device
  (\<^verbatim>\<open>getLogger\<close>, \<^verbatim>\<open>getVideoclipUrls\<close>, the \<^verbatim>\<open>videoclipMode\<close> setting), \<^verbatim>\<open>streamVideoclipFromUrl\<close>,
  the thumbnail's \<^verbatim>\<open>axios.get\<close>, and the awaited result of \<^verbatim>\<open>getVodUrlForEvent\<close> (the cache of
  the previous section). Logging and \<^verbatim>\<open>response.send\<close> are taken not to throw.
\<close>

record videoclip_urls =
  videoUrl :: string
  thumbnailUrl :: string

record mixin =
  getLogger :: "thrown option"
  getVideoclipUrls :: "string \<Rightarrow> thrown + videoclip_urls"
  videoclipMode :: "string option"

text \<open>The argument object of \<^verbatim>\<open>streamVideoclipFromUrl\<close>, without the request, response and
  logger objects.\<close>

record stream_args =
  arg_videoUrl :: string
  arg_vodUrl :: "string option"
  arg_deviceId :: string
  arg_eventId :: string
  arg_videoclipMode :: "string option"

record gateway =
  parse_URL :: "string \<Rightarrow> thrown + parsed_url"
  videoclipsDevice :: "(string \<rightharpoonup> mixin) option"
  setting_serverUrl :: string
  streamVideoclipFromUrl :: "stream_args \<Rightarrow> thrown option"
  await_getVodUrlForEvent :: "options \<Rightarrow> thrown + string"
  axios_get :: "string \<Rightarrow> thrown + string"

text \<open>
  The body of a response, as the template that produced it and the values interpolated:
  \<^item> \<^verbatim>\<open>Missing required parameters: ${JSON.stringify({deviceId, eventId})}\<close>
  \<^item> \<^verbatim>\<open>Device not found for deviceId: ${deviceId}\<close>
  \<^item> \<^verbatim>\<open>${JSON.stringify(e)}, ${e.message}\<close>, both of the thrown value \<^verbatim>\<open>e\<close>
  \<^item> \<^verbatim>\<open>Webhook not found: ${url.pathname}\<close>
  \<^item> \<^verbatim>\<open>Error in data parsing for webhook: ${JSON.stringify({error: e.message, deviceId, eventId, url: request.url})}\<close>
  \<^item> the bytes of the thumbnail, sent with the header \<^verbatim>\<open>Content-Type: image/jpeg\<close>.
\<close>

datatype body =
    MissingParameters "string option" "string option"
  | DeviceNotFound string
  | WebhookError thrown
  | WebhookNotFound string
  | DataParsingError "string option" string string string
  | Jpeg string

text \<open>What the handler does to the outside, in order: a response sent (with its status code,
  when one is given) and the calls to the collaborators.\<close>

datatype effect =
    Send body "nat option"
  | StreamVideoclipFromUrl stream_args
  | GetVodUrlForEvent options
  | AxiosGet string

text \<open>How the inner \<^verbatim>\<open>try\<close> block (lines 478-540) ends: by a \<^verbatim>\<open>return\<close>, by an exception, or by
  reaching its end when the webhook is neither of the two.\<close>

datatype ending = Returned | Threw thrown | FellThrough

text \<open>Lines 479-540. An exception of \<^verbatim>\<open>sendVideo\<close> is logged and swallowed (lines 519-526).\<close>

definition webhook_branches ::
  "gateway \<Rightarrow> parsed_url \<Rightarrow> mixin \<Rightarrow> string \<Rightarrow> string \<Rightarrow> string option
     \<Rightarrow> effect list \<times> ending" where
  "webhook_branches g url dev device_id event_id webhook =
     (if webhook = Some ''videoclip'' then
        (case getVideoclipUrls dev event_id of
           Inl e \<Rightarrow> ([], Threw e)
         | Inr urls \<Rightarrow>
             if toLowerCase (case searchParams_get url ''hls'' of None \<Rightarrow> [] | Some v \<Rightarrow> v) = ''seg''
             then
               let args = \<lparr>arg_videoUrl = videoUrl urls, arg_vodUrl = None,
                            arg_deviceId = device_id, arg_eventId = event_id,
                            arg_videoclipMode = videoclipMode dev\<rparr>
               in (case streamVideoclipFromUrl g args of
                     Some e \<Rightarrow> ([StreamVideoclipFromUrl args], Threw e)
                   | None \<Rightarrow> ([StreamVideoclipFromUrl args], Returned))
             else
               let opts = \<lparr>cacheKey = device_id @ '':'' @ event_id,
                            serverUrl = setting_serverUrl g, eventId = event_id\<rparr>
               in (case await_getVodUrlForEvent g opts of
                     Inl e \<Rightarrow> ([GetVodUrlForEvent opts], Threw e)
                   | Inr vod_url \<Rightarrow>
                       let args = \<lparr>arg_videoUrl = videoUrl urls, arg_vodUrl = Some vod_url,
                                    arg_deviceId = device_id, arg_eventId = event_id,
                                    arg_videoclipMode = videoclipMode dev\<rparr>
                       in ([GetVodUrlForEvent opts, StreamVideoclipFromUrl args], Returned)))
      else if webhook = Some ''thumbnail'' then
        (case getVideoclipUrls dev event_id of
           Inl e \<Rightarrow> ([], Threw e)
         | Inr urls \<Rightarrow>
             (case axios_get g (thumbnailUrl urls) of
                Inl e \<Rightarrow> ([AxiosGet (thumbnailUrl urls)], Threw e)
              | Inr jpeg \<Rightarrow> ([AxiosGet (thumbnailUrl urls), Send (Jpeg jpeg) None], Returned)))
      else ([], FellThrough))"

text \<open>
  The inner \<^verbatim>\<open>catch\<close> (lines 541-548). The body of its response is built first:
  \<^verbatim>\<open>JSON.stringify(e)\<close> may throw, and so does \<^verbatim>\<open>e.message\<close> on \<^verbatim>\<open>undefined\<close> or \<^verbatim>\<open>null\<close>. Such an
  exception leaves the handler, with nothing sent; otherwise the response has status 400.
\<close>

definition inner_catch :: "thrown \<Rightarrow> effect list \<times> thrown option" where
  "inner_catch e =
     (case stringify_throws e of
        Some t \<Rightarrow> ([], Some t)
      | None \<Rightarrow>
          (case message_of e of
             Inl t \<Rightarrow> ([], Some t)
           | Inr m \<Rightarrow> ([Send (WebhookError e) (Some 400)], None)))"

text \<open>
  The outer \<^verbatim>\<open>catch\<close> (lines 555-565). \<^verbatim>\<open>e.message\<close> is read while the body is built; when that
  throws, nothing is sent and the exception leaves \<^verbatim>\<open>onRequest\<close>. Otherwise the response has
  status 500.
\<close>

definition outer_catch :: "string \<Rightarrow> string \<Rightarrow> string \<Rightarrow> thrown \<Rightarrow> effect list \<times> thrown option" where
  "outer_catch device_id event_id request_url e =
     (case message_of e of
        Inl t \<Rightarrow> ([], Some t)
      | Inr m \<Rightarrow>
          ([Send (DataParsingError m device_id event_id request_url) (Some 500)], None))"

text \<open>
  Lines 460-554, the body of the outer \<^verbatim>\<open>try\<close>: the effects, and the exception that leaves it,
  if any. Reading \<^verbatim>\<open>currentMixinsMap\<close> of a videoclips device that is not set throws a
  \<^verbatim>\<open>TypeError\<close>.
\<close>

definition dispatch ::
  "gateway \<Rightarrow> parsed_url \<Rightarrow> string \<Rightarrow> string \<Rightarrow> effect list \<times> thrown option" where
  "dispatch g url device_id event_id =
     (let webhook = element (split_slash (pathname url)) 5
      in case videoclipsDevice g of
           None \<Rightarrow> ([], Some (ErrorObj
             ''Cannot read properties of undefined (reading 'currentMixinsMap')''))
         | Some currentMixinsMap \<Rightarrow>
             (case currentMixinsMap device_id of
                None \<Rightarrow> ([Send (DeviceNotFound device_id) (Some 404)], None)
              | Some dev \<Rightarrow>
                  (case getLogger dev of
                     Some e \<Rightarrow> ([], Some e)
                   | None \<Rightarrow>
                       (case webhook_branches g url dev device_id event_id webhook of
                          (effs, Returned) \<Rightarrow> (effs, None)
                        | (effs, Threw e) \<Rightarrow>
                            (case inner_catch e of (sent, leaving) \<Rightarrow> (effs @ sent, leaving))
                        | (effs, FellThrough) \<Rightarrow>
                            (effs @ [Send (WebhookNotFound (pathname url)) (Some 404)], None)))))"

text \<open>
  \<^verbatim>\<open>onRequest\<close>: the effects of handling a request with the given \<^verbatim>\<open>request.url\<close>, and the
  exception the returned promise is rejected with, if any. The URL is parsed outside the
  \<^verbatim>\<open>try\<close>.
\<close>

definition onRequest :: "gateway \<Rightarrow> string \<Rightarrow> effect list \<times> thrown option" where
  "onRequest g request_url =
     (case parse_URL g (''http://localhost'' @ request_url) of
        Inl e \<Rightarrow> ([], Some e)
      | Inr url \<Rightarrow>
          let device_id = searchParams_get url ''deviceId'';
              event_id = searchParams_get url ''eventId''
          in if \<not> truthy_str device_id \<or> \<not> truthy_str event_id
             then ([Send (MissingParameters device_id event_id) (Some 400)], None)
             else
               (case dispatch g url (the device_id) (the event_id) of
                  (effs, None) \<Rightarrow> (effs, None)
                | (effs, Some e) \<Rightarrow>
                    (case outer_catch (the device_id) (the event_id) request_url e of
                       (sent, leaving) \<Rightarrow> (effs @ sent, leaving))))"

text \<open>
  What answers an exception \<open>e\<close> thrown inside the videoclip or the thumbnail branch: the
  inner handler and, for what leaves it, the outer one.
\<close>

definition webhook_exception ::
  "string \<Rightarrow> string \<Rightarrow> string \<Rightarrow> thrown \<Rightarrow> effect list \<times> thrown option" where
  "webhook_exception device_id event_id request_url e =
     (case inner_catch e of
        (sent, None) \<Rightarrow> (sent, None)
      | (sent, Some t) \<Rightarrow>
          (case outer_catch device_id event_id request_url t of
             (sent', leaving) \<Rightarrow> (sent @ sent', leaving)))"

text \<open>A response with status 500 is among the effects.\<close>

definition status_500 :: "effect \<Rightarrow> bool" where
  "status_500 eff =
     (case eff of
        Send b code \<Rightarrow> code = Some 500
      | StreamVideoclipFromUrl args \<Rightarrow> False
      | GetVodUrlForEvent opts \<Rightarrow> False
      | AxiosGet u \<Rightarrow> False)"

definition sent_500 :: "effect list \<Rightarrow> bool" where
  "sent_500 effs = list_ex status_500 effs"

text \<open>\<^verbatim>\<open>getVodUrlForEvent\<close> is called among the effects.\<close>

definition resolves_manifest :: "effect \<Rightarrow> bool" where
  "resolves_manifest eff =
     (case eff of
        Send b code \<Rightarrow> False
      | StreamVideoclipFromUrl args \<Rightarrow> False
      | GetVodUrlForEvent opts \<Rightarrow> True
      | AxiosGet u \<Rightarrow> False)"

subsection \<open>Three concrete gateways\<close>

text \<open>A request for the thumbnail of event \<^verbatim>\<open>e1\<close> of device \<^verbatim>\<open>12\<close>, on a gateway whose
  thumbnail fetch is refused, on one whose mixin fails to give its logger, and on one whose
  thumbnail fetch throws \<^verbatim>\<open>undefined\<close>.\<close>

definition example_request :: string where
  "example_request = ''/endpoint/@scrypted/frigate-bridge/public/thumbnail?deviceId=12&eventId=e1''"

definition example_url :: parsed_url where
  "example_url = \<lparr>pathname = ''/endpoint/@scrypted/frigate-bridge/public/thumbnail'',
                   searchParams = [(''deviceId'', ''12''), (''eventId'', ''e1'')]\<rparr>"

definition example_urls :: videoclip_urls where
  "example_urls = \<lparr>videoUrl = ''http://nvr:5000/api/events/e1/clip.mp4'',
                    thumbnailUrl = ''http://nvr:5000/api/events/e1/thumbnail.jpg''\<rparr>"

definition example_mixin :: mixin where
  "example_mixin = \<lparr>getLogger = None, getVideoclipUrls = (\<lambda>ev. Inr example_urls),
                     videoclipMode = None\<rparr>"

definition thumbnail_failure_gateway :: gateway where
  "thumbnail_failure_gateway =
     \<lparr>parse_URL = (\<lambda>u. Inr example_url),
      videoclipsDevice = Some [''12'' \<mapsto> example_mixin],
      setting_serverUrl = ''http://nvr:5000/api'',
      streamVideoclipFromUrl = (\<lambda>args. None),
      await_getVodUrlForEvent = (\<lambda>opts. Inr ''http://nvr:5000/vod/cam/start/1/end/2/index.m3u8''),
      axios_get = (\<lambda>u. Inl (ErrorObj ''connect ECONNREFUSED''))\<rparr>"

definition logger_failure_gateway :: gateway where
  "logger_failure_gateway =
     thumbnail_failure_gateway
       \<lparr>videoclipsDevice :=
          Some [''12'' \<mapsto> example_mixin\<lparr>getLogger := Some (ErrorObj ''storage is not ready'')\<rparr>]\<rparr>"

definition undefined_failure_gateway :: gateway where
  "undefined_failure_gateway = thumbnail_failure_gateway\<lparr>axios_get := (\<lambda>u. Inl ThrownUndefined)\<rparr>"

section \<open>Stream discovery: the configuration caches (main.ts, lines 239-290) and
  \<^verbatim>\<open>discoverBestConfiguredStreamUrlsAndProbe\<close> (camera.ts, lines 313-404)\<close>

text \<open>
  The part of the Frigate configuration that discovery reads, the same for the parsed
  (\<^verbatim>\<open>/config\<close>) and the raw (\<^verbatim>\<open>/config/raw\<close>) form: the names of the go2rtc streams in the order
  \<^verbatim>\<open>Object.keys\<close> gives them, the RTSP credentials of go2rtc, and for each camera the list
  \<^verbatim>\<open>ffmpeg.inputs\<close>. A field that is absent (or \<^verbatim>\<open>null\<close>) on the way is \<open>None\<close>. An input is a
  string, or an object whose \<^verbatim>\<open>path\<close> is a string or is not.
\<close>

datatype ffmpeg_input = InputString string | InputObject "string option"

record camera_config =
  ffmpeg_inputs :: "ffmpeg_input list option"

record frigate_config =
  go2rtc_streams :: "string list option"
  rtsp_username :: "string option"
  rtsp_password :: "string option"
  cameras :: "(string \<rightharpoonup> camera_config) option"

text \<open>The fields of the plugin that cache the two forms (main.ts, lines 174-177).\<close>

record provider =
  config :: "frigate_config option"
  lastConfigFetch :: "int option"
  configRawJson :: "frigate_config option"
  lastConfigRawJsonFetch :: "int option"

text \<open>
  The backend, as the answers it gives during one run: to \<^verbatim>\<open>/config\<close> (a rejection, or the
  \<^verbatim>\<open>data\<close> of the response), to \<^verbatim>\<open>/config/raw\<close> (a rejection; no data; text that \<^verbatim>\<open>parseYaml\<close>
  rejects; or the parsed document) and, for each URL, what \<^verbatim>\<open>ffprobeViaFrigate\<close> returns or
  throws.
\<close>

datatype raw_data = NoData | Unparsable | Parsed "frigate_config option"

record 's backend =
  config_answer :: "thrown + frigate_config option"
  raw_answer :: "thrown + raw_data"
  probe_outcome :: "string \<Rightarrow> thrown + 's"

datatype backend_call = FetchConfig | FetchConfigRaw | Ffprobe string

text \<open>
  \<^verbatim>\<open>getConfiguration(force)\<close>, lines 239-258: \<open>now\<close> is the clock at line 241, \<open>stored\<close> the clock
  at line 255. A comparison with an undefined \<^verbatim>\<open>lastConfigFetch\<close> is false. The result is
  what is returned or thrown, the plugin's fields afterwards and the requests made.
\<close>

definition getConfiguration ::
  "'s backend \<Rightarrow> bool \<Rightarrow> int \<Rightarrow> int \<Rightarrow> provider
     \<Rightarrow> (thrown + frigate_config option) \<times> provider \<times> backend_call list" where
  "getConfiguration b force now stored p =
     (if \<not> force \<and> config p \<noteq> None
          \<and> (case lastConfigFetch p of None \<Rightarrow> False | Some t \<Rightarrow> now < t + 1000 * 60 * 5)
      then (Inr (config p), p, [])
      else (case config_answer b of
              Inl e \<Rightarrow> (Inl e, p, [FetchConfig])
            | Inr data \<Rightarrow>
                (Inr data, p\<lparr>config := data, lastConfigFetch := Some stored\<rparr>, [FetchConfig])))"

text \<open>
  \<^verbatim>\<open>getConfigurationRawJson()\<close>, lines 260-290. It has no \<^verbatim>\<open>force\<close> parameter;
  \<^verbatim>\<open>this.lastConfigRawJsonFetch ?? 0\<close> reads an undefined timestamp as 0.
\<close>

definition getConfigurationRawJson ::
  "'s backend \<Rightarrow> int \<Rightarrow> int \<Rightarrow> provider
     \<Rightarrow> (thrown + frigate_config option) \<times> provider \<times> backend_call list" where
  "getConfigurationRawJson b now stored p =
     (if configRawJson p \<noteq> None
          \<and> now < (case lastConfigRawJsonFetch p of None \<Rightarrow> 0 | Some t \<Rightarrow> t) + 1000 * 60 * 5
      then (Inr (configRawJson p), p, [])
      else (case raw_answer b of
              Inl e \<Rightarrow> (Inl e, p, [FetchConfigRaw])
            | Inr NoData \<Rightarrow>
                (Inr None, p\<lparr>configRawJson := None, lastConfigRawJsonFetch := Some stored\<rparr>,
                 [FetchConfigRaw])
            | Inr Unparsable \<Rightarrow>
                (Inr None, p\<lparr>configRawJson := None, lastConfigRawJsonFetch := Some stored\<rparr>,
                 [FetchConfigRaw])
            | Inr (Parsed doc) \<Rightarrow>
                (Inr doc, p\<lparr>configRawJson := doc, lastConfigRawJsonFetch := Some stored\<rparr>,
                 [FetchConfigRaw])))"

subsection \<open>The base URL of the relay\<close>

text \<open>\<^verbatim>\<open>replace(/\/+$/, '')\<close>: the string without its trailing slashes.\<close>

definition strip_trailing_slashes :: "string \<Rightarrow> string" where
  "strip_trailing_slashes s = rev (dropWhile (\<lambda>c. c = CHR ''/'') (rev s))"

text \<open>
  The settings of the plugin that \<^verbatim>\<open>getBaseGo2rtcUrl\<close> (camera.ts, lines 149-174) reads, and the
  two platform functions it calls: \<^verbatim>\<open>new URL(serverUrl).hostname\<close>, which may throw, and
  \<^verbatim>\<open>encodeURIComponent\<close>.
\<close>

record provider_settings =
  baseGo2rtcUrl :: "string option"
  baseGo2rtcUrl_defaultValue :: "string option"
  provider_serverUrl :: string
  URL_hostname :: "string \<Rightarrow> thrown + string"
  encodeURIComponent :: "string \<Rightarrow> string"

definition getBaseGo2rtcUrl :: "provider_settings \<Rightarrow> provider \<Rightarrow> string option" where
  "getBaseGo2rtcUrl s p =
     (if truthy_str (baseGo2rtcUrl s) then baseGo2rtcUrl s
      else if truthy_str (baseGo2rtcUrl_defaultValue s) then baseGo2rtcUrl_defaultValue s
      else (case URL_hostname s (provider_serverUrl s) of
              Inl e \<Rightarrow> None
            | Inr host \<Rightarrow>
                let user = (case config p of None \<Rightarrow> None | Some c \<Rightarrow> rtsp_username c);
                    pass = (case config p of None \<Rightarrow> None | Some c \<Rightarrow> rtsp_password c)
                in if truthy_str user \<and> truthy_str pass
                   then Some (''rtsp://'' @ encodeURIComponent s (the user) @ '':''
                              @ encodeURIComponent s (the pass) @ ''@'' @ host @ '':8554'')
                   else Some (''rtsp://'' @ host @ '':8554'')))"

text \<open>A template string renders an undefined value as the text \<^verbatim>\<open>undefined\<close>.\<close>

definition template :: "string option \<Rightarrow> string" where
  "template v = (case v of None \<Rightarrow> ''undefined'' | Some s \<Rightarrow> s)"

subsection \<open>The descriptors\<close>

text \<open>\<^verbatim>\<open>String.prototype.includes\<close>: the second string occurs in the first.\<close>

definition starts_with :: "string \<Rightarrow> string \<Rightarrow> bool" where
  "starts_with s sub = (take (length sub) s = sub)"

fun str_includes :: "string \<Rightarrow> string \<Rightarrow> bool" where
  "str_includes [] sub = (sub = [])"
| "str_includes (c # cs) sub = (starts_with (c # cs) sub \<or> str_includes cs sub)"

text \<open>The decimal rendering of an index.\<close>

fun decimal :: "nat \<Rightarrow> string" where
  "decimal n =
     (if n < 10 then [''0123456789'' ! n]
      else decimal (n div 10) @ [''0123456789'' ! (n mod 10)])"

declare decimal.simps [simp del]

datatype stream_source = go2rtc | input

text \<open>\<^verbatim>\<open>ConfiguredStreamProbe\<close> (camera.ts, lines 35-45); \<open>'s\<close> is the type of a probe summary.\<close>

record 's ConfiguredStreamProbe =
  cameraName :: string
  streamName :: string
  streamId :: string
  source :: stream_source
  stream_url :: string
  probedAt :: int
  ffprobe :: "'s option"
  probe_error :: "string option"

text \<open>Line 341: the path of an input, when it has one.\<close>

definition path_of :: "ffmpeg_input \<Rightarrow> string option" where
  "path_of inp = (case inp of InputString s \<Rightarrow> Some s | InputObject p \<Rightarrow> p)"

text \<open>Lines 346-352: \<^verbatim>\<open>some\<close> stops at the first stream name that the path contains behind a
  slash or a colon; the callback has stored that name by then.\<close>

definition matches_stream :: "string \<Rightarrow> string \<Rightarrow> bool" where
  "matches_stream path g2rtcStreamName =
     (str_includes path (''/'' @ g2rtcStreamName) \<or> str_includes path ('':'' @ g2rtcStreamName))"

definition first_match :: "string \<Rightarrow> string list \<Rightarrow> string option" where
  "first_match path go2rtcStreamNames = List.find (matches_stream path) go2rtcStreamNames"

text \<open>
  The body of the \<^verbatim>\<open>forEach\<close> callback (lines 339-379) for the input at \<open>index\<close>: the
  descriptor that is pushed, if any. An input without a path, or with an empty one, is skipped.
\<close>

definition configured_stream ::
  "string \<Rightarrow> string option \<Rightarrow> string list \<Rightarrow> int \<Rightarrow> nat \<Rightarrow> ffmpeg_input
     \<Rightarrow> 's ConfiguredStreamProbe option" where
  "configured_stream camera_name base go2rtcStreamNames now index inp =
     (if truthy_str (path_of inp) then
        let path = the (path_of inp) in
        (case first_match path go2rtcStreamNames of
           Some g2rtcStreamName \<Rightarrow>
             Some \<lparr>cameraName = camera_name, streamName = g2rtcStreamName,
                   streamId = ''stream_'' @ decimal (index + 1), source = go2rtc,
                   stream_url = template base @ ''/'' @ g2rtcStreamName,
                   probedAt = now, ffprobe = None, probe_error = None\<rparr>
         | None \<Rightarrow>
             Some \<lparr>cameraName = camera_name, streamName = ''Stream '' @ decimal (index + 1),
                   streamId = ''stream_'' @ decimal (index + 1), source = input,
                   stream_url = path,
                   probedAt = now, ffprobe = None, probe_error = None\<rparr>)
      else None)"

text \<open>
  What a camera device persists: the items \<^verbatim>\<open>detectedStream:${streamId}:url\<close> of its storage
  and the item \<^verbatim>\<open>probedStreams\<close>, kept here as the list that is serialised into it.
\<close>

record 's camera_storage =
  items :: "string \<rightharpoonup> string"
  probedStreams :: "'s ConfiguredStreamProbe list option"

definition getDetectedStreamKey :: "string \<Rightarrow> string" where
  "getDetectedStreamKey stream_id = ''detectedStream:'' @ stream_id @ '':url''"

text \<open>The \<^verbatim>\<open>forEach\<close> of line 338, from index \<open>index\<close> on: the descriptors pushed and the storage
  after the \<^verbatim>\<open>setItem\<close> calls of line 378.\<close>

fun forEach_input ::
  "string \<Rightarrow> string option \<Rightarrow> string list \<Rightarrow> int \<Rightarrow> nat \<Rightarrow> ffmpeg_input list
     \<Rightarrow> 's camera_storage \<Rightarrow> 's ConfiguredStreamProbe list \<times> 's camera_storage" where
  "forEach_input camera_name base names now index [] st = ([], st)"
| "forEach_input camera_name base names now index (inp # inputs) st =
     (case configured_stream camera_name base names now index inp of
        None \<Rightarrow> forEach_input camera_name base names now (Suc index) inputs st
      | Some d \<Rightarrow>
          let st' = st\<lparr>items := (items st)(getDetectedStreamKey (streamId d) \<mapsto> stream_url d)\<rparr>;
              (ds, st'') = forEach_input camera_name base names now (Suc index) inputs st'
          in (d # ds, st''))"

text \<open>The callback given to \<^verbatim>\<open>mapLimit\<close> (lines 383-392): the probe's summary or the message of
  what it threw is stored on the item.\<close>

definition probe_item :: "'s backend \<Rightarrow> 's ConfiguredStreamProbe \<Rightarrow> 's ConfiguredStreamProbe" where
  "probe_item b item =
     (case probe_outcome b (stream_url item) of
        Inr summary \<Rightarrow> item\<lparr>ffprobe := Some summary\<rparr>
      | Inl e \<Rightarrow> item\<lparr>probe_error := Some (thrown_message e)\<rparr>)"

text \<open>
  Modelled from the spec: \<^verbatim>\<open>mapLimit\<close> is defined in utils.ts, which is not among the sources.
  The spec (4.1) gives its result: the operation applied to each item, in the order of the
  input. How many run at once does not change the result here, where the outcome of a probe
  depends on its URL only.
\<close>

definition mapLimit :: "'a list \<Rightarrow> nat \<Rightarrow> ('a \<Rightarrow> 'b) \<Rightarrow> 'b list" where
  "mapLimit xs limit f = map f xs"

text \<open>
  \<^verbatim>\<open>discoverBestConfiguredStreamUrlsAndProbe({force, concurrency})\<close>. The five clock readings
  of a run are those of line 318, of \<^verbatim>\<open>getConfigurationRawJson\<close> and of \<^verbatim>\<open>getConfiguration\<close>.
  An undefined \<^verbatim>\<open>force\<close> is falsy; an undefined \<^verbatim>\<open>concurrency\<close> is 4.
\<close>

record discovery_times =
  t_discover :: int
  t_raw :: int
  t_raw_stored :: int
  t_config :: int
  t_config_stored :: int

text \<open>Lines 324-327: the raw form is preferred wherever it has the value.\<close>

definition go2rtc_stream_names :: "frigate_config option \<Rightarrow> frigate_config option \<Rightarrow> string list" where
  "go2rtc_stream_names raw cfg =
     (case (case raw of None \<Rightarrow> None | Some r \<Rightarrow> go2rtc_streams r) of
        Some names \<Rightarrow> names
      | None \<Rightarrow>
          (case (case cfg of None \<Rightarrow> None | Some c \<Rightarrow> go2rtc_streams c) of
             Some names \<Rightarrow> names
           | None \<Rightarrow> []))"

definition camera_of :: "frigate_config option \<Rightarrow> string \<Rightarrow> camera_config option" where
  "camera_of doc camera_name =
     (case doc of
        None \<Rightarrow> None
      | Some d \<Rightarrow> (case cameras d of None \<Rightarrow> None | Some cs \<Rightarrow> cs camera_name))"

definition camera_inputs ::
  "frigate_config option \<Rightarrow> frigate_config option \<Rightarrow> string \<Rightarrow> ffmpeg_input list option" where
  "camera_inputs raw cfg camera_name =
     (case (case camera_of raw camera_name of
              Some c \<Rightarrow> Some c
            | None \<Rightarrow> camera_of cfg camera_name) of
        None \<Rightarrow> None
      | Some cameraConfig \<Rightarrow> ffmpeg_inputs cameraConfig)"

text \<open>
  The result of a run: what is returned or thrown, the plugin's cache fields, the camera's
  storage and the requests to the backend. \<^verbatim>\<open>inputs.forEach\<close> on an undefined \<^verbatim>\<open>inputs\<close> throws a
  \<^verbatim>\<open>TypeError\<close> (line 338). \<^verbatim>\<open>refreshSettings\<close>, which follows the last write, is left out.
\<close>

definition discoverBestConfiguredStreamUrlsAndProbe ::
  "'s backend \<Rightarrow> provider_settings \<Rightarrow> string \<Rightarrow> discovery_times \<Rightarrow> bool \<Rightarrow> nat option
     \<Rightarrow> provider \<Rightarrow> 's camera_storage
     \<Rightarrow> (thrown + 's ConfiguredStreamProbe list) \<times> provider \<times> 's camera_storage
         \<times> backend_call list" where
  "discoverBestConfiguredStreamUrlsAndProbe b s camera_name ts force opt_concurrency p st =
     (case getConfigurationRawJson b (t_raw ts) (t_raw_stored ts) p of
        (Inl e, p1, calls1) \<Rightarrow> (Inl e, p1, st, calls1)
      | (Inr raw, p1, calls1) \<Rightarrow>
          (case getConfiguration b force (t_config ts) (t_config_stored ts) p1 of
             (Inl e, p2, calls2) \<Rightarrow> (Inl e, p2, st, calls1 @ calls2)
           | (Inr cfg, p2, calls2) \<Rightarrow>
               let base = map_option strip_trailing_slashes (getBaseGo2rtcUrl s p2);
                   go2rtcStreamNames = go2rtc_stream_names raw cfg
               in (case camera_inputs raw cfg camera_name of
                     None \<Rightarrow>
                       (Inl (ErrorObj ''Cannot read properties of undefined (reading 'forEach')''),
                        p2, st, calls1 @ calls2)
                   | Some inputs \<Rightarrow>
                       let (configuredStreams, st1) =
                             forEach_input camera_name base go2rtcStreamNames (t_discover ts) 0
                               inputs st;
                           concurrency = (case opt_concurrency of None \<Rightarrow> 4 | Some c \<Rightarrow> c);
                           ffprobeResult = mapLimit configuredStreams concurrency (probe_item b);
                           st2 = st1\<lparr>probedStreams := Some ffprobeResult\<rparr>
                       in (Inr ffprobeResult, p2, st2,
                           calls1 @ calls2 @ map (\<lambda>d. Ffprobe (stream_url d)) configuredStreams))))"

text \<open>
  The spec's words for the classification (4.3, step 2), to compare with \<open>matches_stream\<close>: the
  path contains the relay stream's name as a path segment, or as the end of a segment behind
  a colon.
\<close>

definition ends_with :: "string \<Rightarrow> string \<Rightarrow> bool" where
  "ends_with s suffix = starts_with (rev s) (rev suffix)"

definition spec_segment_match :: "string \<Rightarrow> string \<Rightarrow> bool" where
  "spec_segment_match path name =
     list_ex (\<lambda>segment. segment = name \<or> ends_with segment ('':'' @ name)) (split_slash path)"

subsection \<open>A forced run on a plugin that has the raw configuration cached\<close>

text \<open>
  The plugin fetched \<^verbatim>\<open>/config/raw\<close> at time 1000, when the camera \<^verbatim>\<open>front\<close> had the input
  \<^verbatim>\<open>rtsp://10.0.0.5:554/old\<close>. The operator has since changed the input to
  \<^verbatim>\<open>rtsp://10.0.0.5:554/new\<close>, which both endpoints of the backend now report, and presses
  the re-run button at time 61000.
\<close>

definition config_with_input :: "string \<Rightarrow> frigate_config" where
  "config_with_input path =
     \<lparr>go2rtc_streams = None, rtsp_username = None, rtsp_password = None,
      cameras = Some [''front'' \<mapsto> \<lparr>ffmpeg_inputs = Some [InputObject (Some path)]\<rparr>]\<rparr>"

definition stale_provider :: provider where
  "stale_provider =
     \<lparr>config = Some (config_with_input ''rtsp://10.0.0.5:554/old''), lastConfigFetch = Some 1000,
      configRawJson = Some (config_with_input ''rtsp://10.0.0.5:554/old''),
      lastConfigRawJsonFetch = Some 1000\<rparr>"

definition updated_backend :: "unit backend" where
  "updated_backend =
     \<lparr>config_answer = Inr (Some (config_with_input ''rtsp://10.0.0.5:554/new'')),
      raw_answer = Inr (Parsed (Some (config_with_input ''rtsp://10.0.0.5:554/new''))),
      probe_outcome = (\<lambda>u. Inr ())\<rparr>"

definition example_settings :: provider_settings where
  "example_settings =
     \<lparr>baseGo2rtcUrl = Some ''rtsp://10.0.0.2:8554/'', baseGo2rtcUrl_defaultValue = None,
      provider_serverUrl = ''http://10.0.0.2:5000/api'',
      URL_hostname = (\<lambda>u. Inr ''10.0.0.2''), encodeURIComponent = (\<lambda>s. s)\<rparr>"

definition rerun_times :: discovery_times where
  "rerun_times = \<lparr>t_discover = 61000, t_raw = 61001, t_raw_stored = 61050,
                   t_config = 61051, t_config_stored = 61100\<rparr>"

definition empty_storage :: "unit camera_storage" where
  "empty_storage = \<lparr>items = Map.empty, probedStreams = None\<rparr>"

subsection \<open>A camera with a main and a sub stream on the relay\<close>

text \<open>
  The relay has the streams \<^verbatim>\<open>cam\<close> and \<^verbatim>\<open>cam_sub\<close>; the camera \<^verbatim>\<open>front\<close> takes its two inputs
  from them, as Frigate's documentation sets a camera up.
\<close>

definition relay_config :: frigate_config where
  "relay_config =
     \<lparr>go2rtc_streams = Some [''cam'', ''cam_sub''], rtsp_username = None, rtsp_password = None,
      cameras = Some [''front'' \<mapsto>
        \<lparr>ffmpeg_inputs = Some [InputObject (Some ''rtsp://127.0.0.1:8554/cam''),
                               InputObject (Some ''rtsp://127.0.0.1:8554/cam_sub'')]\<rparr>]\<rparr>"

definition relay_backend :: "unit backend" where
  "relay_backend =
     \<lparr>config_answer = Inr (Some relay_config), raw_answer = Inr (Parsed (Some relay_config)),
      probe_outcome = (\<lambda>u. Inr ())\<rparr>"

definition fresh_provider :: provider where
  "fresh_provider =
     \<lparr>config = None, lastConfigFetch = None, configRawJson = None, lastConfigRawJsonFetch = None\<rparr>"

section \<open>Probe normaliser: \<^verbatim>\<open>ffprobeViaFrigate\<close> (camera.ts, lines 176-311)\<close>

subsection \<open>JSON values and the operations of the language on them\<close>

text \<open>
  The response of the backend is parsed JSON: a number is finite, an object is the list of its
  own properties in property order, with distinct keys. \<^verbatim>\<open>undefined\<close> is the value of a
  missing property.
\<close>

datatype json =
    JUndefined
  | JNull
  | JBool bool
  | JNum rat
  | JStr string
  | JArr "json list"
  | JObj "(string \<times> json) list"

fun truthy :: "json \<Rightarrow> bool" where
  "truthy JUndefined = False"
| "truthy JNull = False"
| "truthy (JBool b) = b"
| "truthy (JNum n) = (n \<noteq> 0)"
| "truthy (JStr s) = (s \<noteq> [])"
| "truthy (JArr xs) = True"
| "truthy (JObj kvs) = True"

fun nullish :: "json \<Rightarrow> bool" where
  "nullish JUndefined = True"
| "nullish JNull = True"
| "nullish v = False"

text \<open>\<^verbatim>\<open>typeof v === 'object'\<close> (true of \<^verbatim>\<open>null\<close> as well), \<^verbatim>\<open>'number'\<close>, \<^verbatim>\<open>'string'\<close>.\<close>

fun is_object :: "json \<Rightarrow> bool" where
  "is_object JNull = True"
| "is_object (JArr xs) = True"
| "is_object (JObj kvs) = True"
| "is_object v = False"

fun is_number :: "json \<Rightarrow> bool" where
  "is_number (JNum n) = True"
| "is_number v = False"

text \<open>An array index as a property key: decimal digits without a leading zero.\<close>

definition digit_of :: "char \<Rightarrow> nat option" where
  "digit_of c = map_of (zip ''0123456789'' [0, 1, 2, 3, 4, 5, 6, 7, 8, 9]) c"

definition digits_value :: "string \<Rightarrow> nat option" where
  "digits_value s =
     (if s = [] then None
      else map_option (foldl (\<lambda>a d. 10 * a + d) 0) (those (map digit_of s)))"

definition array_index :: "string \<Rightarrow> nat option" where
  "array_index k = (if 1 < length k \<and> hd k = CHR ''0'' then None else digits_value k)"

definition own :: "(string \<times> json) list \<Rightarrow> string \<Rightarrow> json" where
  "own kvs k = (case map_of kvs k of None \<Rightarrow> JUndefined | Some v \<Rightarrow> v)"

text \<open>
  \<^verbatim>\<open>x.k\<close> and \<^verbatim>\<open>x[k]\<close>: reading a property of \<^verbatim>\<open>undefined\<close> or \<^verbatim>\<open>null\<close> throws a \<^verbatim>\<open>TypeError\<close>. Of
  the inherited properties only \<^verbatim>\<open>length\<close> is kept: the others are methods, which have none of
  the properties this code goes on to read, so that every test on them comes out as on
  \<^verbatim>\<open>undefined\<close>.
\<close>

definition read :: "json \<Rightarrow> string \<Rightarrow> thrown + json" where
  "read x k =
     (case x of
        JUndefined \<Rightarrow>
          Inl (ErrorObj (''Cannot read properties of undefined (reading '' @ quoted k @ '')''))
      | JNull \<Rightarrow> Inl (ErrorObj (''Cannot read properties of null (reading '' @ quoted k @ '')''))
      | JBool b \<Rightarrow> Inr JUndefined
      | JNum n \<Rightarrow> Inr JUndefined
      | JStr s \<Rightarrow>
          Inr (if k = ''length'' then JNum (of_nat (length s))
               else (case array_index k of
                       None \<Rightarrow> JUndefined
                     | Some i \<Rightarrow> if i < length s then JStr [s ! i] else JUndefined))
      | JArr xs \<Rightarrow>
          Inr (if k = ''length'' then JNum (of_nat (length xs))
               else (case array_index k of
                       None \<Rightarrow> JUndefined
                     | Some i \<Rightarrow> if i < length xs then xs ! i else JUndefined))
      | JObj kvs \<Rightarrow> Inr (own kvs k))"

text \<open>\<^verbatim>\<open>x?.k\<close>.\<close>

definition opt_read :: "json \<Rightarrow> string \<Rightarrow> json" where
  "opt_read x k = (case read x k of Inl e \<Rightarrow> JUndefined | Inr v \<Rightarrow> v)"

text \<open>\<^verbatim>\<open>'k' in x\<close> throws a \<^verbatim>\<open>TypeError\<close> when \<^verbatim>\<open>x\<close> is not an object.\<close>

definition has_key :: "string \<Rightarrow> json \<Rightarrow> thrown + bool" where
  "has_key k x =
     (case x of
        JObj kvs \<Rightarrow> Inr (map_of kvs k \<noteq> None)
      | JArr xs \<Rightarrow>
          Inr (k = ''length'' \<or> (case array_index k of None \<Rightarrow> False | Some i \<Rightarrow> i < length xs))
      | _ \<Rightarrow> Inl (ErrorObj (''Cannot use 'in' operator to search for '' @ quoted k)))"

text \<open>\<^verbatim>\<open>xs[0]\<close> and \<^verbatim>\<open>Object.values(x)[0]\<close>.\<close>

definition first_of :: "json list \<Rightarrow> json" where
  "first_of xs = (case xs of [] \<Rightarrow> JUndefined | x # rest \<Rightarrow> x)"

definition first_value :: "json \<Rightarrow> json" where
  "first_value x =
     (case x of
        JArr xs \<Rightarrow> first_of xs
      | JObj kvs \<Rightarrow> first_of (map snd kvs)
      | _ \<Rightarrow> JUndefined)"

text \<open>Sequencing of steps that may throw.\<close>

definition bind :: "thrown + 'a \<Rightarrow> ('a \<Rightarrow> thrown + 'b) \<Rightarrow> thrown + 'b" where
  "bind m f = (case m of Inl e \<Rightarrow> Inl e | Inr x \<Rightarrow> f x)"

subsection \<open>The platform and the helpers of utils.ts\<close>

text \<open>
  Functions of the platform are parameters: \<^verbatim>\<open>Number\<close> on a string, \<^verbatim>\<open>String\<close> on a value that
  is not a string, \<^verbatim>\<open>Number.parseFloat\<close> and \<^verbatim>\<open>Number.parseInt(_, 10)\<close> on a non-empty string
  (each giving \<open>None\<close> for a result that is not finite), \<^verbatim>\<open>String.prototype.trim\<close>, which
  strips the white space and the line terminators of Unicode, and \<^verbatim>\<open>new URL(url).protocol\<close>.
  So are the two helpers of utils.ts whose code is not among the sources, where the spec
  does not say what they return, and the outcome of the local probe \<^verbatim>\<open>ffprobeLocalJson\<close>.
\<close>

record platform =
  Number_of_string :: "string \<Rightarrow> rat option"
  String_of_value :: "json \<Rightarrow> string"
  parseFloat_text :: "string \<Rightarrow> rat option"
  parseInt_text :: "string \<Rightarrow> rat option"
  String_trim :: "string \<Rightarrow> string"
  URL_protocol :: "string \<Rightarrow> thrown + string"
  toArray_of_value :: "json \<Rightarrow> json list"
  parseFraction_of_text :: "string \<Rightarrow> rat option"
  ffprobeLocalJson :: "string \<Rightarrow> thrown + json"

text \<open>\<^verbatim>\<open>String(v)\<close>; \<^verbatim>\<open>Number.parseFloat(s)\<close> and \<^verbatim>\<open>Number.parseInt(s, 10)\<close>, which are \<^verbatim>\<open>NaN\<close> on the
  empty string; \<^verbatim>\<open>Number(v)\<close>, with \<open>None\<close> for \<^verbatim>\<open>NaN\<close> and the infinities.\<close>

definition String_js :: "platform \<Rightarrow> json \<Rightarrow> string" where
  "String_js P v = (case v of JStr s \<Rightarrow> s | _ \<Rightarrow> String_of_value P v)"

definition parseFloat_js :: "platform \<Rightarrow> string \<Rightarrow> rat option" where
  "parseFloat_js P s = (if s = [] then None else parseFloat_text P s)"

definition parseInt_js :: "platform \<Rightarrow> string \<Rightarrow> rat option" where
  "parseInt_js P s = (if s = [] then None else parseInt_text P s)"

definition Number_js :: "platform \<Rightarrow> json \<Rightarrow> rat option" where
  "Number_js P v =
     (case v of
        JUndefined \<Rightarrow> None
      | JNull \<Rightarrow> Some 0
      | JBool b \<Rightarrow> Some (if b then 1 else 0)
      | JNum n \<Rightarrow> Some n
      | JStr s \<Rightarrow> Number_of_string P s
      | JArr xs \<Rightarrow> Number_of_string P (String_of_value P v)
      | JObj kvs \<Rightarrow> Number_of_string P (String_of_value P v))"

text \<open>
  Modelled from the spec: \<^verbatim>\<open>toArray\<close> is defined in utils.ts, which is not among the sources.
  The spec (4.2, steps 2 and 3) speaks of the payload's \<^verbatim>\<open>streams\<close> list and of an empty summary
  for a payload without one: an array is its elements, a missing value the empty list. What it
  makes of any other value is the parameter.
\<close>

definition toArray :: "platform \<Rightarrow> json \<Rightarrow> json list" where
  "toArray P v =
     (case v of
        JArr xs \<Rightarrow> xs
      | JUndefined \<Rightarrow> []
      | JNull \<Rightarrow> []
      | _ \<Rightarrow> toArray_of_value P v)"

text \<open>
  Modelled from the spec: \<^verbatim>\<open>parseFraction\<close> is defined in utils.ts, which is not among the
  sources. The spec (4.2, step 4) has it read a fraction string and give an absent value for
  an invalid one: a value that is not a string is absent, the reading of a string is the
  parameter.
\<close>

definition parseFraction :: "platform \<Rightarrow> json \<Rightarrow> rat option" where
  "parseFraction P v = (case v of JStr s \<Rightarrow> parseFraction_of_text P s | _ \<Rightarrow> None)"

subsection \<open>The fallback to a local probe (lines 185-200)\<close>

text \<open>Lines 187-190: the response is an array and \<^verbatim>\<open>Number(first?.return_code)\<close> is 1.\<close>

definition frigate_failed :: "platform \<Rightarrow> json \<Rightarrow> bool" where
  "frigate_failed P data =
     (case data of
        JArr xs \<Rightarrow> Number_js P (opt_read (first_of xs) ''return_code'') = Some 1
      | _ \<Rightarrow> False)"

text \<open>Line 196: the trimmed \<^verbatim>\<open>stderr\<close> of the first entry, when it is a string and the trimmed
  text is not empty.\<close>

definition frigateStderr :: "platform \<Rightarrow> json \<Rightarrow> string option" where
  "frigateStderr P first =
     (case opt_read first ''stderr'' of
        JStr s \<Rightarrow> if String_trim P s \<noteq> [] then Some (String_trim P s) else None
      | _ \<Rightarrow> None)"

text \<open>Line 197.\<close>

definition fallback_message :: "platform \<Rightarrow> string \<Rightarrow> json \<Rightarrow> thrown \<Rightarrow> string" where
  "fallback_message P u first e =
     ''Frigate ffprobe failed (return_code=1) for '' @ u
       @ (case frigateStderr P first of None \<Rightarrow> [] | Some stderr \<Rightarrow> '': '' @ stderr)
       @ ''. Local ffprobe fallback failed: '' @ thrown_message e"

text \<open>
  The data to normalise, or the error thrown, and the URLs probed locally. The handler of a
  failed local probe first logs \<^verbatim>\<open>JSON.stringify(e)\<close> (line 194): when that throws, its
  \<^verbatim>\<open>TypeError\<close> is what leaves the handler.
\<close>

definition local_fallback :: "platform \<Rightarrow> string \<Rightarrow> json \<Rightarrow> (thrown + json) \<times> string list" where
  "local_fallback P u data =
     (if frigate_failed P data then
        (case ffprobeLocalJson P u of
           Inr local \<Rightarrow> (Inr local, [u])
         | Inl e \<Rightarrow>
             (case stringify_throws e of
                Some t \<Rightarrow> (Inl t, [u])
              | None \<Rightarrow> (Inl (ErrorObj (fallback_message P u (first_value data) e)), [u])))
      else (Inr data, []))"

subsection \<open>Locating the payload (lines 201-252)\<close>

text \<open>\<^verbatim>\<open>x.streams || x.format\<close>, as a condition.\<close>

definition streams_or_format :: "json \<Rightarrow> thrown + bool" where
  "streams_or_format x =
     bind (read x ''streams'') (\<lambda>s.
       if truthy s then Inr True
       else bind (read x ''format'') (\<lambda>f. Inr (truthy f)))"

text \<open>
  The two tests made on the first element of an array, on the entry keyed by the URL and on
  the first value of an object:
  \<^verbatim>\<open>if (x?.stdout && (x.stdout.streams || x.stdout.format)) return x.stdout;\<close>
  \<^verbatim>\<open>if (x?.streams || x?.format) return x;\<close>
  The result is the value returned, or \<open>None\<close> when neither test holds.
\<close>

definition wrapped :: "json \<Rightarrow> thrown + json option" where
  "wrapped x =
     bind (if truthy (opt_read x ''stdout'')
           then bind (read x ''stdout'') streams_or_format
           else Inr False) (\<lambda>hit.
       if hit then bind (read x ''stdout'') (\<lambda>out. Inr (Some out))
       else if truthy (opt_read x ''streams'') \<or> truthy (opt_read x ''format'') then Inr (Some x)
       else Inr None)"

text \<open>\<^verbatim>\<open>if (x?.result) return x.result.stdout ?? x.result;\<close>\<close>

definition result_of :: "json \<Rightarrow> thrown + json option" where
  "result_of x =
     (if truthy (opt_read x ''result'')
      then bind (read x ''result'') (\<lambda>r.
             bind (read r ''stdout'') (\<lambda>out. Inr (Some (if nullish out then r else out))))
      else Inr None)"

text \<open>The next shape is tried when the one before returned nothing.\<close>

definition or_else :: "thrown + 'a option \<Rightarrow> thrown + 'a option \<Rightarrow> thrown + 'a option" where
  "or_else m n = bind m (\<lambda>r. case r of Some v \<Rightarrow> Inr (Some v) | None \<Rightarrow> n)"

text \<open>Lines 206-212.\<close>

definition array_shape :: "json \<Rightarrow> thrown + json option" where
  "array_shape data = (case data of JArr xs \<Rightarrow> wrapped (first_of xs) | _ \<Rightarrow> Inr None)"

text \<open>Lines 215-216.\<close>

definition stdout_shape :: "json \<Rightarrow> thrown + json option" where
  "stdout_shape data =
     bind (read data ''stdout'') (\<lambda>out.
       if truthy out
       then bind (streams_or_format out) (\<lambda>hit. Inr (if hit then Some out else None))
       else Inr None)"

text \<open>Lines 219-220.\<close>

definition direct_shape :: "json \<Rightarrow> thrown + json option" where
  "direct_shape data =
     bind (streams_or_format data) (\<lambda>hit. Inr (if hit then Some data else None))"

text \<open>Lines 223-224.\<close>

definition result_shape :: "json \<Rightarrow> thrown + json option" where
  "result_shape data =
     bind (read data ''result'') (\<lambda>r.
       if truthy r
       then bind (streams_or_format r) (\<lambda>hit.
              bind (if hit then Inr True
                    else bind (read r ''stdout'') (\<lambda>out. Inr (truthy out))) (\<lambda>hit'.
                if hit'
                then bind (read r ''stdout'') (\<lambda>out. Inr (Some (if nullish out then r else out)))
                else Inr None))
       else Inr None)"

text \<open>Lines 227-235.\<close>

definition keyed_shape :: "string \<Rightarrow> json \<Rightarrow> thrown + json option" where
  "keyed_shape u data =
     (if is_object data \<and> truthy (opt_read data u)
      then let entry = opt_read data u in or_else (wrapped entry) (result_of entry)
      else Inr None)"

text \<open>Lines 238-246.\<close>

definition first_value_shape :: "json \<Rightarrow> thrown + json option" where
  "first_value_shape data =
     (if is_object data
      then let first = first_value data in or_else (wrapped first) (result_of first)
      else Inr None)"

text \<open>The function of lines 201-249: the payload, \<^verbatim>\<open>{}\<close> when there is no data or no shape
  matches.\<close>

definition locate_payload :: "string \<Rightarrow> json \<Rightarrow> thrown + json" where
  "locate_payload u data =
     (if \<not> truthy data then Inr (JObj [])
      else bind (or_else (array_shape data)
                (or_else (stdout_shape data)
                (or_else (direct_shape data)
                (or_else (result_shape data)
                (or_else (keyed_shape u data)
                         (first_value_shape data))))))
             (\<lambda>r. Inr (case r of Some payload \<Rightarrow> payload | None \<Rightarrow> JObj [])))"

text \<open>No shape matches.\<close>

definition unrecognised :: "string \<Rightarrow> json \<Rightarrow> bool" where
  "unrecognised u data =
     (\<not> truthy data \<or>
      (array_shape data = Inr None \<and> stdout_shape data = Inr None \<and> direct_shape data = Inr None
       \<and> result_shape data = Inr None \<and> keyed_shape u data = Inr None
       \<and> first_value_shape data = Inr None))"

subsection \<open>The summary (lines 254-310)\<close>

record format_summary =
  format_name :: "string option"
  format_long_name :: "string option"
  duration :: "rat option"
  bit_rate :: "rat option"

record video_summary =
  codec :: "string option"
  width :: "rat option"
  height :: "rat option"
  fps :: "rat option"
  pix_fmt :: "string option"
  profile :: "string option"
  level :: "rat option"

record audio_summary =
  audio_codec :: "string option"
  channels :: "rat option"
  sample_rate :: "rat option"
  audio_bit_rate :: "rat option"

record FfprobeSummary =
  summary_url :: string
  protocol :: "string option"
  format :: format_summary
  video :: video_summary
  audio :: audio_summary

text \<open>\<^verbatim>\<open>Array.prototype.find\<close> with a callback that may throw.\<close>

fun find_js :: "(json \<Rightarrow> thrown + bool) \<Rightarrow> json list \<Rightarrow> thrown + json" where
  "find_js f [] = Inr JUndefined"
| "find_js f (x # xs) = bind (f x) (\<lambda>hit. if hit then Inr x else find_js f xs)"

text \<open>The callbacks of lines 256 and 257.\<close>

definition is_video :: "json \<Rightarrow> thrown + bool" where
  "is_video s =
     bind (read s ''codec_type'') (\<lambda>t.
       if t = JStr ''video'' then Inr True
       else bind (read s ''width'') (\<lambda>w.
              if is_number w then bind (read s ''height'') (\<lambda>h. Inr (is_number h))
              else Inr False))"

definition is_audio :: "json \<Rightarrow> thrown + bool" where
  "is_audio s =
     bind (read s ''codec_type'') (\<lambda>t.
       if t = JStr ''audio'' then Inr True
       else bind (has_key ''width'' s) (\<lambda>w.
              if w then Inr False
              else bind (has_key ''height'' s) (\<lambda>h. Inr (\<not> h))))"

text \<open>\<^verbatim>\<open>Number.parseFloat(String(v ?? ''))\<close> and \<^verbatim>\<open>Number.parseInt(String(v ?? ''), 10)\<close>, kept when
  finite.\<close>

definition float_field :: "platform \<Rightarrow> json \<Rightarrow> rat option" where
  "float_field P v = parseFloat_js P (String_js P (if nullish v then JStr [] else v))"

definition int_field :: "platform \<Rightarrow> json \<Rightarrow> rat option" where
  "int_field P v = parseInt_js P (String_js P (if nullish v then JStr [] else v))"

text \<open>\<^verbatim>\<open>typeof v === 'string' ? v : undefined\<close> and the same for a number.\<close>

definition string_field :: "json \<Rightarrow> string option" where
  "string_field v = (case v of JStr s \<Rightarrow> Some s | _ \<Rightarrow> None)"

definition number_field :: "json \<Rightarrow> rat option" where
  "number_field v = (case v of JNum n \<Rightarrow> Some n | _ \<Rightarrow> None)"

text \<open>Lines 292-294 and 303-305: the codec's name, or else its long name.\<close>

definition codec_field :: "platform \<Rightarrow> json \<Rightarrow> string option" where
  "codec_field P s =
     (case string_field (opt_read s ''codec_name'') of
        Some name \<Rightarrow> Some name
      | None \<Rightarrow> string_field (opt_read s ''codec_long_name''))"

text \<open>Lines 272-280: the scheme of the URL, by the platform's parser or, when that throws, by
  the pattern \<^verbatim>\<open>/^([a-zA-Z][a-zA-Z0-9+.-]*):/\<close>.\<close>

definition is_alpha :: "char \<Rightarrow> bool" where
  "is_alpha c = (c \<in> set ''abcdefghijklmnopqrstuvwxyzABCDEFGHIJKLMNOPQRSTUVWXYZ'')"

definition is_scheme_char :: "char \<Rightarrow> bool" where
  "is_scheme_char c = (is_alpha c \<or> c \<in> set ''0123456789+.-'')"

definition scheme_match :: "string \<Rightarrow> string option" where
  "scheme_match u =
     (case u of
        [] \<Rightarrow> None
      | c # cs \<Rightarrow>
          if is_alpha c \<and> starts_with (dropWhile is_scheme_char cs) '':''
          then Some (c # takeWhile is_scheme_char cs)
          else None)"

definition protocol_of :: "platform \<Rightarrow> string \<Rightarrow> string option" where
  "protocol_of P u =
     (case URL_protocol P u of
        Inl e \<Rightarrow> scheme_match u
      | Inr p \<Rightarrow>
          if p = [] then None
          else Some (if ends_with p '':'' then butlast p else p))"

definition summarize :: "platform \<Rightarrow> string \<Rightarrow> json \<Rightarrow> thrown + FfprobeSummary" where
  "summarize P u parsed =
     bind (read parsed ''streams'') (\<lambda>parsed_streams.
     bind (read parsed ''format'') (\<lambda>fmt.
     bind (find_js is_video (toArray P parsed_streams)) (\<lambda>vid.
     bind (find_js is_audio (toArray P parsed_streams)) (\<lambda>aud.
       Inr \<lparr>summary_url = u,
            protocol = protocol_of P u,
            format =
              \<lparr>format_name = string_field (opt_read fmt ''format_name''),
               format_long_name = string_field (opt_read fmt ''format_long_name''),
               duration = float_field P (opt_read fmt ''duration''),
               bit_rate = int_field P (opt_read fmt ''bit_rate'')\<rparr>,
            video =
              \<lparr>codec = codec_field P vid,
               width = int_field P (opt_read vid ''width''),
               height = int_field P (opt_read vid ''height''),
               fps = (case parseFraction P (opt_read vid ''avg_frame_rate'') of
                        Some r \<Rightarrow> Some r
                      | None \<Rightarrow> parseFraction P (opt_read vid ''r_frame_rate'')),
               pix_fmt = string_field (opt_read vid ''pix_fmt''),
               profile = string_field (opt_read vid ''profile''),
               level = number_field (opt_read vid ''level'')\<rparr>,
            audio =
              \<lparr>audio_codec = codec_field P aud,
               channels = int_field P (opt_read aud ''channels''),
               sample_rate = int_field P (opt_read aud ''sample_rate''),
               audio_bit_rate = int_field P (opt_read aud ''bit_rate'')\<rparr>\<rparr>))))"

text \<open>A summary without metadata.\<close>

definition empty_summary :: "string \<Rightarrow> string option \<Rightarrow> FfprobeSummary" where
  "empty_summary u p =
     \<lparr>summary_url = u, protocol = p,
      format = \<lparr>format_name = None, format_long_name = None, duration = None, bit_rate = None\<rparr>,
      video = \<lparr>codec = None, width = None, height = None, fps = None, pix_fmt = None,
               profile = None, level = None\<rparr>,
      audio = \<lparr>audio_codec = None, channels = None, sample_rate = None,
               audio_bit_rate = None\<rparr>\<rparr>"

text \<open>
  \<^verbatim>\<open>ffprobeViaFrigate(url)\<close>: \<open>res\<close> is what \<^verbatim>\<open>baseFrigateApi\<close> threw or the \<^verbatim>\<open>data\<close> of its
  response. The result is the summary or the error thrown, and the URLs probed locally.
\<close>

definition ffprobeViaFrigate ::
  "platform \<Rightarrow> thrown + json \<Rightarrow> string \<Rightarrow> (thrown + FfprobeSummary) \<times> string list" where
  "ffprobeViaFrigate P res u =
     (case res of
        Inl e \<Rightarrow> (Inl e, [])
      | Inr data \<Rightarrow>
          (case local_fallback P u data of
             (Inl e, probed) \<Rightarrow> (Inl e, probed)
           | (Inr data', probed) \<Rightarrow>
               (bind (locate_payload u data') (summarize P u), probed)))"

subsection \<open>A platform for examples\<close>

definition example_platform :: platform where
  "example_platform =
     \<lparr>Number_of_string = (\<lambda>s. None),
      String_of_value = (\<lambda>v. if v = JNum 1920 then ''1920'' else if v = JNum 1080 then ''1080''
                               else ''[object Object]''),
      parseFloat_text = (\<lambda>s. None),
      parseInt_text = (\<lambda>s. if s = ''1920'' then Some 1920 else if s = ''1080'' then Some 1080
                             else None),
      String_trim = (\<lambda>s. rev (dropWhile (\<lambda>c. c = CHR '' '') (rev (dropWhile (\<lambda>c. c = CHR '' '') s)))),
      URL_protocol = (\<lambda>u. Inr ''rtsp:''), toArray_of_value = (\<lambda>v. [v]),
      parseFraction_of_text = (\<lambda>s. None),
      ffprobeLocalJson = (\<lambda>u. Inl (ErrorObj ''spawn ffprobe ENOENT''))\<rparr>"



section \<open>Properties of the resolution cache\<close>

lemma resume_simps:
  "promises (resume out k st c) = promises st"
  "axiosGets (resume out k st c) = axiosGets st"
  "nextPromise (resume out k st c) = nextPromise st"
  "nextCall (resume out k st c) = nextCall st"
  "returned (resume out k st c) = (returned st)(c \<mapsto> out)"
  "vodUrlCache (resume out k st c) = (vodUrlCache st)(k \<mapsto> (entry_of st k)\<lparr>inFlight := None\<rparr>)"
  by (simp_all add: resume_def upd_entry_def entry_of_def)

lemma foldl_resume_fields:
  "promises (foldl (resume out k) st ws) = promises st"
  "axiosGets (foldl (resume out k) st ws) = axiosGets st"
  "nextPromise (foldl (resume out k) st ws) = nextPromise st"
  "nextCall (foldl (resume out k) st ws) = nextCall st"
  by (induction ws arbitrary: st; simp add: resume_simps)+

lemma foldl_resume_returned:
  "returned (foldl (resume out k) st ws) c = (if c \<in> set ws then Some out else returned st c)"
  by (induction ws arbitrary: st) (auto simp: resume_simps)

lemma foldl_resume_cache_other:
  "k' \<noteq> k \<Longrightarrow> vodUrlCache (foldl (resume out k) st ws) k' = vodUrlCache st k'"
  by (induction ws arbitrary: st) (auto simp: resume_simps)

lemma foldl_resume_cache:
  "ws \<noteq> [] \<Longrightarrow>
   vodUrlCache (foldl (resume out k) st ws) k = Some ((entry_of st k)\<lparr>inFlight := None\<rparr>)"
proof (induction ws arbitrary: st)
  case Nil
  then show ?case by simp
next
  case (Cons w ws)
  show ?case
  proof (cases "ws = []")
    case True
    then show ?thesis by (simp add: resume_simps)
  next
    case False
    from Cons.IH [OF False, of "resume out k st w"]
    show ?thesis by (simp add: resume_simps entry_of_def)
  qed
qed

lemma ttl_value: "VOD_URL_CACHE_TTL_MS = 300000"
  by (simp add: VOD_URL_CACHE_TTL_MS_def)

lemma entry_of_upd_entry:
  "entry_of (upd_entry k f st) k' = (if k' = k then f (entry_of st k) else entry_of st k')"
  by (simp add: upd_entry_def entry_of_def)

lemma call_hit:
  assumes "cache_hit (vodUrlCache st (cacheKey opts)) now"
  shows "getVodUrlForEvent_call st opts now =
     st\<lparr>nextCall := Suc (nextCall st),
        returned := (returned st)(nextCall st \<mapsto>
          Inr (the (vodUrl (the (vodUrlCache st (cacheKey opts))))))\<rparr>"
  using assms by (simp add: getVodUrlForEvent_call_def Let_def)

lemma call_join:
  assumes "\<not> cache_hit (vodUrlCache st (cacheKey opts)) now"
    and "inFlight (entry_of st (cacheKey opts)) = Some p"
    and "promises st p = Some (Pending k' o' ws)"
  shows "getVodUrlForEvent_call st opts now =
     st\<lparr>nextCall := Suc (nextCall st),
        vodUrlCache := (vodUrlCache st)(cacheKey opts \<mapsto> entry_of st (cacheKey opts)),
        promises := (promises st)(p \<mapsto> Pending k' o' (ws @ [nextCall st]))\<rparr>"
  using assms
  by (simp add: getVodUrlForEvent_call_def Let_def upd_entry_def entry_of_def await_inFlight_def)

lemma call_join_settled:
  assumes "\<not> cache_hit (vodUrlCache st (cacheKey opts)) now"
    and "inFlight (entry_of st (cacheKey opts)) = Some p"
    and "promises st p = Some (Settled out)"
  shows "getVodUrlForEvent_call st opts now =
     st\<lparr>nextCall := Suc (nextCall st),
        vodUrlCache := (vodUrlCache st)(cacheKey opts \<mapsto>
           (entry_of st (cacheKey opts))\<lparr>inFlight := None\<rparr>),
        returned := (returned st)(nextCall st \<mapsto> out)\<rparr>"
  using assms
  by (simp add: getVodUrlForEvent_call_def Let_def upd_entry_def entry_of_def await_inFlight_def
      resume_def)

lemma call_join_dangling:
  assumes "\<not> cache_hit (vodUrlCache st (cacheKey opts)) now"
    and "inFlight (entry_of st (cacheKey opts)) = Some p"
    and "promises st p = None"
  shows "getVodUrlForEvent_call st opts now =
     st\<lparr>nextCall := Suc (nextCall st),
        vodUrlCache := (vodUrlCache st)(cacheKey opts \<mapsto> entry_of st (cacheKey opts))\<rparr>"
  using assms
  by (simp add: getVodUrlForEvent_call_def Let_def upd_entry_def entry_of_def await_inFlight_def)

lemma call_create:
  assumes "\<not> cache_hit (vodUrlCache st (cacheKey opts)) now"
    and "inFlight (entry_of st (cacheKey opts)) = None"
  shows "getVodUrlForEvent_call st opts now =
     st\<lparr>nextCall := Suc (nextCall st),
        vodUrlCache := (vodUrlCache st)(cacheKey opts \<mapsto>
           (entry_of st (cacheKey opts))\<lparr>inFlight := Some (nextPromise st)\<rparr>),
        nextPromise := Suc (nextPromise st),
        axiosGets := axiosGets st @
           [(cacheKey opts, serverUrl opts @ ''/events/'' @ eventId opts)],
        promises := (promises st)(nextPromise st \<mapsto> Pending (cacheKey opts) opts [nextCall st])\<rparr>"
  using assms
  by (simp add: getVodUrlForEvent_call_def Let_def upd_entry_def entry_of_def await_inFlight_def)

lemma settle_pending:
  assumes "promises st p = Some (Pending k opts ws)"
  shows "promises (settle U st p resp now) =
           (promises st)(p \<mapsto> Settled (compute_vodUrl U opts resp))"
    and "axiosGets (settle U st p resp now) = axiosGets st"
    and "nextPromise (settle U st p resp now) = nextPromise st"
    and "nextCall (settle U st p resp now) = nextCall st"
    and "returned (settle U st p resp now) c =
           (if c \<in> set ws then Some (compute_vodUrl U opts resp) else returned st c)"
    and "k' \<noteq> k \<Longrightarrow> vodUrlCache (settle U st p resp now) k' = vodUrlCache st k'"
  using assms
  by (simp_all add: settle_def Let_def foldl_resume_fields foldl_resume_returned
      foldl_resume_cache_other upd_entry_def split: sum.splits)

lemma settle_pending_entry:
  assumes "promises st p = Some (Pending k opts ws)" and "ws \<noteq> []"
  shows "entry_of (settle U st p resp now) k =
     (case compute_vodUrl U opts resp of
        Inl e \<Rightarrow> (entry_of st k)\<lparr>inFlight := None\<rparr>
      | Inr u \<Rightarrow> (entry_of st k)\<lparr>vodUrl := Some u, fetchedAt := Some now, inFlight := None\<rparr>)"
  using assms
  by (simp add: settle_def Let_def foldl_resume_cache entry_of_def upd_entry_def
      split: sum.splits)

lemma settle_not_pending:
  "(\<And>k opts ws. promises st p \<noteq> Some (Pending k opts ws)) \<Longrightarrow> settle U st p resp now = st"
  by (auto simp: settle_def split: option.splits promise.splits)

lemma invD:
  "single_flight_inv st \<Longrightarrow> promises st p = Some (Pending k opts ws) \<Longrightarrow>
     inFlight (entry_of st k) = Some p \<and> p < nextPromise st"
  unfolding single_flight_inv_def by blast

lemma inv_unique:
  assumes "single_flight_inv st"
    and "promises st p = Some (Pending k opts ws)"
    and "promises st q = Some (Pending k opts' ws')"
  shows "q = p"
  using invD [OF assms(1,2)] invD [OF assms(1,3)] by simp

lemma entry_of_cache:
  "entry_of (st\<lparr>vodUrlCache := m\<rparr>) k = (case m k of None \<Rightarrow> empty_entry | Some e \<Rightarrow> e)"
  "entry_of (st\<lparr>nextCall := n\<rparr>) = entry_of st"
  "entry_of (st\<lparr>returned := r\<rparr>) = entry_of st"
  "entry_of (st\<lparr>promises := ps\<rparr>) = entry_of st"
  "entry_of (st\<lparr>axiosGets := gs\<rparr>) = entry_of st"
  "entry_of (st\<lparr>nextPromise := n\<rparr>) = entry_of st"
  by (auto simp: entry_of_def fun_eq_iff)

lemma call_fields:
  "nextCall (getVodUrlForEvent_call st opts now) = Suc (nextCall st)"
  "k \<noteq> cacheKey opts \<Longrightarrow> entry_of (getVodUrlForEvent_call st opts now) k = entry_of st k"
  "nextPromise st \<le> nextPromise (getVodUrlForEvent_call st opts now)"
  by (auto simp: getVodUrlForEvent_call_def Let_def upd_entry_def entry_of_def await_inFlight_def
      resume_def split: option.splits promise.splits)

lemma inv_call:
  assumes "single_flight_inv st"
  shows "single_flight_inv (getVodUrlForEvent_call st opts now)"
proof (cases "cache_hit (vodUrlCache st (cacheKey opts)) now")
  case True
  with assms show ?thesis
    by (simp add: call_hit single_flight_inv_def entry_of_cache)
next
  case miss: False
  let ?k = "cacheKey opts"
  let ?st' = "getVodUrlForEvent_call st opts now"
  show ?thesis
  proof (cases "inFlight (entry_of st ?k)")
    case None
    note eq = call_create [OF miss None]
    have nokey: "\<And>p k o' ws. promises st p = Some (Pending k o' ws) \<Longrightarrow> k \<noteq> ?k"
      using invD [OF assms] None by fastforce
    show ?thesis
      unfolding single_flight_inv_def
    proof (intro allI impI)
      fix q k o' ws
      assume q: "promises ?st' q = Some (Pending k o' ws)"
      show "inFlight (entry_of ?st' k) = Some q \<and> q < nextPromise ?st'"
      proof (cases "q = nextPromise st")
        case True
        with q have "k = ?k" by (auto simp: eq)
        with True show ?thesis by (simp add: eq entry_of_cache)
      next
        case False
        with q have q': "promises st q = Some (Pending k o' ws)" by (simp add: eq)
        from nokey [OF q'] have "entry_of ?st' k = entry_of st k" by (simp add: call_fields)
        with invD [OF assms q'] show ?thesis by (simp add: eq)
      qed
    qed
  next
    case (Some p)
    note marker = this
    show ?thesis
    proof (cases "promises st p")
      case None
      note eq = call_join_dangling [OF miss marker None]
      show ?thesis
        unfolding single_flight_inv_def
      proof (intro allI impI)
        fix q k o' ws
        assume q: "promises ?st' q = Some (Pending k o' ws)"
        then have q': "promises st q = Some (Pending k o' ws)" by (simp add: eq)
        have "entry_of ?st' k = entry_of st k" by (simp add: eq entry_of_cache) (simp add: entry_of_def)
        with invD [OF assms q'] show "inFlight (entry_of ?st' k) = Some q \<and> q < nextPromise ?st'"
          by (simp add: eq)
      qed
    next
      case (Some a)
      note pa = this
      show ?thesis
      proof (cases a)
        case (Pending k' o' ws)
        note eq = call_join [OF miss marker pa [unfolded Pending]]
        have ent: "\<And>k. entry_of ?st' k = entry_of st k"
          by (simp add: eq entry_of_cache) (simp add: entry_of_def)
        show ?thesis
          unfolding single_flight_inv_def
        proof (intro allI impI)
          fix q k o'' ws'
          assume q: "promises ?st' q = Some (Pending k o'' ws')"
          then obtain ws'' where q': "promises st q = Some (Pending k o'' ws'')"
            using pa Pending by (auto simp: eq split: if_splits)
          with invD [OF assms q'] show "inFlight (entry_of ?st' k) = Some q \<and> q < nextPromise ?st'"
            by (simp add: ent) (simp add: eq)
        qed
      next
        case (Settled out)
        note eq = call_join_settled [OF miss marker pa [unfolded Settled]]
        have nokey: "\<And>q k o' ws. promises st q = Some (Pending k o' ws) \<Longrightarrow> k \<noteq> ?k"
          using invD [OF assms] marker pa Settled by fastforce
        show ?thesis
          unfolding single_flight_inv_def
        proof (intro allI impI)
          fix q k o'' ws'
          assume q: "promises ?st' q = Some (Pending k o'' ws')"
          then have q': "promises st q = Some (Pending k o'' ws')" by (simp add: eq)
          from nokey [OF q'] have "entry_of ?st' k = entry_of st k" by (simp add: call_fields)
          with invD [OF assms q'] show "inFlight (entry_of ?st' k) = Some q \<and> q < nextPromise ?st'"
            by (simp add: eq)
        qed
      qed
    qed
  qed
qed

lemma inv_settle:
  assumes "single_flight_inv st"
  shows "single_flight_inv (settle U st p resp now)"
proof (cases "\<exists>k opts ws. promises st p = Some (Pending k opts ws)")
  case False
  then have "settle U st p resp now = st"
    by (intro settle_not_pending) auto
  with assms show ?thesis by simp
next
  case True
  then obtain k opts ws where pend: "promises st p = Some (Pending k opts ws)" by blast
  show ?thesis
    unfolding single_flight_inv_def
  proof (intro allI impI)
    fix q k' o' ws'
    assume q: "promises (settle U st p resp now) q = Some (Pending k' o' ws')"
    then have qp: "q \<noteq> p" and q': "promises st q = Some (Pending k' o' ws')"
      by (auto simp: settle_pending(1) [OF pend] split: if_splits)
    have "k' \<noteq> k"
    proof
      assume "k' = k"
      with inv_unique [OF assms pend] q' qp show False by blast
    qed
    then have "entry_of (settle U st p resp now) k' = entry_of st k'"
      by (simp add: entry_of_def settle_pending(6) [OF pend])
    with invD [OF assms q'] show "inFlight (entry_of (settle U st p resp now) k') = Some q \<and>
        q < nextPromise (settle U st p resp now)"
      by (simp add: settle_pending(3) [OF pend])
  qed
qed

lemma inv_step: "single_flight_inv st \<Longrightarrow> single_flight_inv (step U st ev)"
  by (cases ev) (simp_all add: inv_call inv_settle)

lemma inv_run: "single_flight_inv st \<Longrightarrow> single_flight_inv (run U st evs)"
  unfolding run_def by (induction evs arbitrary: st) (simp_all add: inv_step)

lemma inv_initial: "single_flight_inv initial_state"
  by (simp add: single_flight_inv_def initial_state_def)

lemma pending_call:
  assumes inv: "single_flight_inv st"
    and pend: "promises st p = Some (Pending k opts ws)"
  shows "\<exists>ws'. promises (getVodUrlForEvent_call st o' now) p = Some (Pending k opts ws')
           \<and> set ws \<subseteq> set ws'
           \<and> gets_for k (getVodUrlForEvent_call st o' now) = gets_for k st"
proof (cases "cache_hit (vodUrlCache st (cacheKey o')) now")
  case True
  with pend show ?thesis by (simp add: call_hit gets_for_def)
next
  case miss: False
  show ?thesis
  proof (cases "inFlight (entry_of st (cacheKey o'))")
    case None
    with invD [OF inv pend] have "cacheKey o' \<noteq> k" "p \<noteq> nextPromise st" by auto
    with pend show ?thesis by (simp add: call_create [OF miss None] gets_for_def)
  next
    case (Some q)
    show ?thesis
    proof (cases "promises st q")
      case None
      with pend show ?thesis by (simp add: call_join_dangling [OF miss Some None] gets_for_def)
    next
      case (Some a)
      show ?thesis
      proof (cases a)
        case (Pending k' o'' ws'')
        with pend Some show ?thesis
          by (auto simp: call_join [OF miss \<open>inFlight _ = Some q\<close> Some [unfolded Pending]]
              gets_for_def)
      next
        case (Settled out)
        with pend show ?thesis
          by (simp add: call_join_settled [OF miss \<open>inFlight _ = Some q\<close> Some [unfolded Settled]]
              gets_for_def)
      qed
    qed
  qed
qed

lemma pending_settle:
  assumes pend: "promises st p = Some (Pending k opts ws)" and "q \<noteq> p"
  shows "promises (settle U st q resp now) p = Some (Pending k opts ws)
           \<and> gets_for k (settle U st q resp now) = gets_for k st"
proof (cases "\<exists>k' o' ws'. promises st q = Some (Pending k' o' ws')")
  case False
  then have "settle U st q resp now = st"
    by (intro settle_not_pending) auto
  with pend show ?thesis by simp
next
  case True
  then obtain k' o' ws' where q: "promises st q = Some (Pending k' o' ws')" by blast
  from pend \<open>q \<noteq> p\<close> show ?thesis
    by (simp add: settle_pending(1,2) [OF q] gets_for_def)
qed

lemma pending_step:
  assumes "single_flight_inv st"
    and "promises st p = Some (Pending k opts ws)"
    and "\<not> settles p ev"
  shows "\<exists>ws'. promises (step U st ev) p = Some (Pending k opts ws')
           \<and> set ws \<subseteq> set ws' \<and> gets_for k (step U st ev) = gets_for k st"
proof (cases ev)
  case (Call o' now)
  with pending_call [OF assms(1,2)] show ?thesis by simp
next
  case (Settle q resp now)
  with assms(3) have "q \<noteq> p" by (simp add: settles_def)
  from pending_settle [OF assms(2) this] Settle show ?thesis by auto
qed

lemma pending_run:
  assumes "single_flight_inv st"
    and "promises st p = Some (Pending k opts ws)"
    and "\<forall>ev \<in> set evs. \<not> settles p ev"
  shows "\<exists>ws'. promises (run U st evs) p = Some (Pending k opts ws')
           \<and> set ws \<subseteq> set ws' \<and> gets_for k (run U st evs) = gets_for k st"
  using assms
proof (induction evs arbitrary: st ws)
  case Nil
  then show ?case by (simp add: run_def)
next
  case (Cons ev evs)
  from Cons.prems have ns: "\<not> settles p ev" and rest: "\<forall>ev \<in> set evs. \<not> settles p ev"
    by simp_all
  from pending_step [OF Cons.prems(1,2) ns, of U]
  obtain ws1 where s1: "promises (step U st ev) p = Some (Pending k opts ws1)"
    and sub1: "set ws \<subseteq> set ws1" and g1: "gets_for k (step U st ev) = gets_for k st"
    by blast
  from Cons.IH [OF inv_step [OF Cons.prems(1)] s1 rest]
  obtain ws2 where s2: "promises (run U (step U st ev) evs) p = Some (Pending k opts ws2)"
    and sub2: "set ws1 \<subseteq> set ws2"
    and g2: "gets_for k (run U (step U st ev) evs) = gets_for k (step U st ev)"
    by blast
  have "run U st (ev # evs) = run U (step U st ev) evs" by (simp add: run_def)
  with s2 sub1 sub2 g1 g2 show ?case by auto
qed

lemmas model_defs = cache_hit_def entry_of_def
      empty_entry_def getVodUrlForEvent_call_def upd_entry_def await_inFlight_def
      settle_def resume_def compute_vodUrl_def VOD_URL_CACHE_TTL_MS_def

lemma nextCall_settle: "nextCall (settle U st p resp now) = nextCall st"
proof (cases "\<exists>k opts ws. promises st p = Some (Pending k opts ws)")
  case True
  then show ?thesis by (auto simp: settle_pending(4))
next
  case False
  then have "settle U st p resp now = st"
    by (intro settle_not_pending) auto
  then show ?thesis by simp
qed

lemma nextCall_step: "nextCall st \<le> nextCall (step U st ev)"
  by (cases ev) (simp_all add: call_fields nextCall_settle)

lemma nextCall_run: "nextCall st \<le> nextCall (run U st evs)"
  unfolding run_def
proof (induction evs arbitrary: st)
  case Nil
  show ?case by simp
next
  case (Cons ev evs)
  from nextCall_step [of st U ev] Cons.IH [of "step U st ev"] show ?case by simp
qed

lemma compute_vodUrl_nonempty:
  "compute_vodUrl U opts resp = Inr u \<Longrightarrow> u \<noteq> []"
  by (auto simp: compute_vodUrl_def split: sum.splits)

lemma settle_stores_truthy:
  assumes "promises st p = Some (Pending k opts ws)" and "ws \<noteq> []"
    and "compute_vodUrl U opts resp = Inr u" and "now \<noteq> 0"
  shows "vodUrl (entry_of (settle U st p resp now) k) = Some u \<and> u \<noteq> []
       \<and> fetchedAt (entry_of (settle U st p resp now) k) = Some now"
  using assms compute_vodUrl_nonempty [OF assms(3)]
  by (simp add: settle_pending_entry)

text \<open>
  \<^bold>\<open>C1\<close> (single-flight). Take any state that satisfies the invariant and a key \<open>k\<close> with
  no fresh cached value and no computation in flight. A first call for \<open>k\<close> starts the
  computation (its promise gets the handle \<open>nextPromise st\<close>, the call the handle
  \<open>nextCall st\<close>). Then anything may happen except the answer to that computation (\<open>evsA\<close>);
  a second call for \<open>k\<close> arrives and finds no fresh cached value; again anything may happen
  except the answer (\<open>evsB\<close>); finally the backend answers. Over the whole schedule exactly
  one request was issued for \<open>k\<close>, the one of the first call, and the two calls, which are
  different invocations, return the same outcome: the manifest URL computed from that one
  answer (or, when the computation failed, the same error).
\<close>

theorem single_flight:
  fixes URL_origin :: "string \<Rightarrow> thrown + string"
    and resp :: "thrown + DetectionData" and now nowA nowB :: int
  assumes inv: "single_flight_inv st"
    and keyA: "cacheKey optsA = k" and keyB: "cacheKey optsB = k"
    and missA: "\<not> cache_hit (vodUrlCache st k) nowA"
    and idle: "inFlight (entry_of st k) = None"
    and quietA: "\<forall>ev \<in> set evsA. \<not> settles (nextPromise st) ev"
    and missB: "\<not> cache_hit
          (vodUrlCache (run URL_origin (getVodUrlForEvent_call st optsA nowA) evsA) k) nowB"
    and quietB: "\<forall>ev \<in> set evsB. \<not> settles (nextPromise st) ev"
  defines "sA \<equiv> getVodUrlForEvent_call st optsA nowA"
  defines "s1 \<equiv> run URL_origin sA evsA"
  defines "sB \<equiv> getVodUrlForEvent_call s1 optsB nowB"
  defines "s2 \<equiv> run URL_origin sB evsB"
  defines "s3 \<equiv> settle URL_origin s2 (nextPromise st) resp now"
  shows "gets_for k s3 = gets_for k st @ [(k, serverUrl optsA @ ''/events/'' @ eventId optsA)]
       \<and> returned s3 (nextCall st) = Some (compute_vodUrl URL_origin optsA resp)
       \<and> returned s3 (nextCall s1) = Some (compute_vodUrl URL_origin optsA resp)
       \<and> nextCall st < nextCall s1"
proof -
  let ?p = "nextPromise st"
  have missA': "\<not> cache_hit (vodUrlCache st (cacheKey optsA)) nowA"
    and idle': "inFlight (entry_of st (cacheKey optsA)) = None"
    using missA idle keyA by simp_all
  note eqA = call_create [OF missA' idle']
  have pA: "promises sA ?p = Some (Pending k optsA [nextCall st])"
    and gA: "gets_for k sA = gets_for k st @ [(k, serverUrl optsA @ ''/events/'' @ eventId optsA)]"
    unfolding sA_def eqA using keyA by (simp_all add: gets_for_def)
  have invA: "single_flight_inv sA"
    unfolding sA_def by (rule inv_call [OF inv])
  from pending_run [OF invA pA quietA, of URL_origin]
  obtain ws1 where p1: "promises s1 ?p = Some (Pending k optsA ws1)"
    and sub1: "nextCall st \<in> set ws1" and g1: "gets_for k s1 = gets_for k sA"
    unfolding s1_def by auto
  have inv1: "single_flight_inv s1"
    unfolding s1_def by (rule inv_run [OF invA])
  have missB': "\<not> cache_hit (vodUrlCache s1 (cacheKey optsB)) nowB"
    using missB keyB by (simp add: s1_def sA_def)
  have markB: "inFlight (entry_of s1 (cacheKey optsB)) = Some ?p"
    using invD [OF inv1 p1] keyB by simp
  note eqB = call_join [OF missB' markB p1]
  have pB: "promises sB ?p = Some (Pending k optsA (ws1 @ [nextCall s1]))"
    and gB: "gets_for k sB = gets_for k s1"
    unfolding sB_def eqB by (simp_all add: gets_for_def)
  have invB: "single_flight_inv sB"
    unfolding sB_def by (rule inv_call [OF inv1])
  from pending_run [OF invB pB quietB, of URL_origin]
  obtain ws2 where p2: "promises s2 ?p = Some (Pending k optsA ws2)"
    and sub2: "set (ws1 @ [nextCall s1]) \<subseteq> set ws2" and g2: "gets_for k s2 = gets_for k sB"
    unfolding s2_def by auto
  from sub1 sub2 have inA: "nextCall st \<in> set ws2" and inB: "nextCall s1 \<in> set ws2"
    by auto
  have "gets_for k s3 = gets_for k s2"
    unfolding s3_def by (simp add: gets_for_def settle_pending(2) [OF p2])
  with g2 gB g1 gA have "gets_for k s3 =
      gets_for k st @ [(k, serverUrl optsA @ ''/events/'' @ eventId optsA)]"
    by simp
  moreover from inA have "returned s3 (nextCall st) = Some (compute_vodUrl URL_origin optsA resp)"
    unfolding s3_def by (simp add: settle_pending(5) [OF p2])
  moreover from inB have "returned s3 (nextCall s1) = Some (compute_vodUrl URL_origin optsA resp)"
    unfolding s3_def by (simp add: settle_pending(5) [OF p2])
  moreover have "nextCall st < nextCall s1"
  proof -
    have "nextCall sA = Suc (nextCall st)" unfolding sA_def by (simp add: call_fields)
    with nextCall_run [of sA URL_origin evsA] show ?thesis unfolding s1_def by simp
  qed
  ultimately show ?thesis by blast
qed

theorem single_flight_witness:
  "let optsA = \<lparr>cacheKey = ''cam1:ev1'', serverUrl = ''http://nvr:5000/api'', eventId = ''ev1''\<rparr>;
       other = \<lparr>cacheKey = ''cam2:ev9'', serverUrl = ''http://nvr:5000/api'', eventId = ''ev9''\<rparr>;
       U = (\<lambda>u. Inr ''http://nvr:5000'');
       resp = Inr \<lparr>camera = ''cam1'', start_time = ''10'', end_time = ''20''\<rparr>;
       sA = getVodUrlForEvent_call initial_state optsA 1000;
       s1 = run U sA [Call other 1005];
       sB = getVodUrlForEvent_call s1 optsA 1010;
       s2 = run U sB [];
       s3 = settle U s2 0 resp 2000
   in gets_for ''cam1:ev1'' s3 = [(''cam1:ev1'', ''http://nvr:5000/api/events/ev1'')]
    \<and> returned s3 0 = Some (Inr ''http://nvr:5000/vod/cam1/start/10/end/20/index.m3u8'')
    \<and> returned s3 2 = Some (Inr ''http://nvr:5000/vod/cam1/start/10/end/20/index.m3u8'')"
proof -
  let ?A = "\<lparr>cacheKey = ''cam1:ev1'', serverUrl = ''http://nvr:5000/api'', eventId = ''ev1''\<rparr>"
  let ?O = "\<lparr>cacheKey = ''cam2:ev9'', serverUrl = ''http://nvr:5000/api'', eventId = ''ev9''\<rparr>"
  let ?U = "\<lambda>u::string. (Inr ''http://nvr:5000'' :: thrown + string)"
  let ?resp = "Inr \<lparr>camera = ''cam1'', start_time = ''10'', end_time = ''20''\<rparr> :: thrown + DetectionData"
  let ?sA = "getVodUrlForEvent_call initial_state ?A 1000"
  let ?s1 = "run ?U ?sA [Call ?O 1005]"
  have sA: "?sA =
     \<lparr>vodUrlCache = [''cam1:ev1'' \<mapsto> \<lparr>vodUrl = None, fetchedAt = None, inFlight = Some 0\<rparr>],
      promises = [0 \<mapsto> Pending ''cam1:ev1'' ?A [0]],
      axiosGets = [(''cam1:ev1'', ''http://nvr:5000/api/events/ev1'')],
      returned = Map.empty, nextPromise = 1, nextCall = 1\<rparr>"
    by (simp add: initial_state_def model_defs Let_def)
  have s1: "nextCall ?s1 = 2 \<and> vodUrlCache ?s1 ''cam1:ev1'' =
      Some \<lparr>vodUrl = None, fetchedAt = None, inFlight = Some 0\<rparr>"
    unfolding sA by (simp add: run_def model_defs Let_def)
  have h1: "single_flight_inv initial_state"
    by (simp add: single_flight_inv_def initial_state_def)
  have h2: "cacheKey ?A = ''cam1:ev1''" by simp
  have h3: "\<not> cache_hit (vodUrlCache initial_state ''cam1:ev1'') 1000"
    by (simp add: initial_state_def cache_hit_def)
  have h4: "inFlight (entry_of initial_state ''cam1:ev1'') = None"
    by (simp add: initial_state_def entry_of_def empty_entry_def)
  have h5: "\<forall>ev \<in> set [Call ?O 1005]. \<not> settles (nextPromise initial_state) ev"
    by (simp add: settles_def)
  have h6: "\<not> cache_hit (vodUrlCache ?s1 ''cam1:ev1'') 1010"
    by (simp add: s1 cache_hit_def)
  have h7: "\<forall>ev \<in> set []. \<not> settles (nextPromise initial_state) ev"
    by simp
  have p0: "nextPromise initial_state = 0" "nextCall initial_state = 0"
    "gets_for ''cam1:ev1'' initial_state = []"
    by (simp_all add: initial_state_def gets_for_def)
  from single_flight [OF h1 h2 h2 h3 h4 h5 h6 h7, of ?resp 2000]
  show ?thesis
    unfolding Let_def p0 by (simp add: s1 compute_vodUrl_def)
qed

text \<open>
  \<^bold>\<open>C2\<close> (freshness). Let the entry of the key hold a manifest URL \<open>u\<close> stored at time \<open>t\<close>
  (both truthy, as every value the code stores is when the clock is not at the epoch). A call
  at a time \<open>now\<close> with \<open>now - t\<close> below five minutes returns \<open>u\<close> at once and changes nothing
  else: no request is issued. A call at an age of five minutes or more, with no computation in
  flight, issues exactly one request, for \<^verbatim>\<open>{serverUrl}/events/{eventId}\<close>, marks the entry in
  flight and suspends.
\<close>

theorem getVodUrlForEvent_ttl:
  assumes "vodUrlCache st (cacheKey opts) = Some e"
    and "vodUrl e = Some u" and "u \<noteq> []"
    and "fetchedAt e = Some t" and "t \<noteq> 0"
  shows "(now - t < 5 * 60 * 1000 \<longrightarrow>
            getVodUrlForEvent_call st opts now =
              st\<lparr>nextCall := Suc (nextCall st),
                 returned := (returned st)(nextCall st \<mapsto> Inr u)\<rparr>)
       \<and> (5 * 60 * 1000 \<le> now - t \<and> inFlight e = None \<longrightarrow>
            axiosGets (getVodUrlForEvent_call st opts now) =
              axiosGets st @ [(cacheKey opts, serverUrl opts @ ''/events/'' @ eventId opts)]
          \<and> returned (getVodUrlForEvent_call st opts now) = returned st
          \<and> promises (getVodUrlForEvent_call st opts now) (nextPromise st) =
              Some (Pending (cacheKey opts) opts [nextCall st])
          \<and> vodUrlCache (getVodUrlForEvent_call st opts now) (cacheKey opts) =
              Some (e\<lparr>inFlight := Some (nextPromise st)\<rparr>))"
proof (intro conjI impI)
  assume "now - t < 5 * 60 * 1000"
  with assms have "cache_hit (vodUrlCache st (cacheKey opts)) now"
    by (simp add: cache_hit_def VOD_URL_CACHE_TTL_MS_def)
  with assms show "getVodUrlForEvent_call st opts now =
      st\<lparr>nextCall := Suc (nextCall st), returned := (returned st)(nextCall st \<mapsto> Inr u)\<rparr>"
    by (simp add: getVodUrlForEvent_call_def Let_def)
next
  assume a: "5 * 60 * 1000 \<le> now - t \<and> inFlight e = None"
  with assms have miss: "\<not> cache_hit (vodUrlCache st (cacheKey opts)) now"
    by (simp add: cache_hit_def VOD_URL_CACHE_TTL_MS_def)
  let ?st' = "getVodUrlForEvent_call st opts now"
  from miss a assms show "axiosGets ?st' =
      axiosGets st @ [(cacheKey opts, serverUrl opts @ ''/events/'' @ eventId opts)]"
    by (simp add: getVodUrlForEvent_call_def Let_def upd_entry_def entry_of_def await_inFlight_def)
  from miss a assms show "returned ?st' = returned st"
    by (simp add: getVodUrlForEvent_call_def Let_def upd_entry_def entry_of_def await_inFlight_def)
  from miss a assms show "promises ?st' (nextPromise st) =
      Some (Pending (cacheKey opts) opts [nextCall st])"
    by (simp add: getVodUrlForEvent_call_def Let_def upd_entry_def entry_of_def await_inFlight_def)
  from miss a assms show "vodUrlCache ?st' (cacheKey opts) =
      Some (e\<lparr>inFlight := Some (nextPromise st)\<rparr>)"
    by (simp add: getVodUrlForEvent_call_def Let_def upd_entry_def entry_of_def await_inFlight_def)
qed

theorem getVodUrlForEvent_ttl_witness:
  "let opts = \<lparr>cacheKey = ''cam1:ev1'', serverUrl = ''http://nvr:5000/api'', eventId = ''ev1''\<rparr>;
       e = \<lparr>vodUrl = Some ''http://nvr:5000/vod/cam1/start/10/end/20/index.m3u8'',
            fetchedAt = Some 1000, inFlight = None\<rparr>;
       st = initial_state\<lparr>vodUrlCache := [''cam1:ev1'' \<mapsto> e]\<rparr>
   in returned (getVodUrlForEvent_call st opts 300999) 0 =
        Some (Inr ''http://nvr:5000/vod/cam1/start/10/end/20/index.m3u8'')
    \<and> axiosGets (getVodUrlForEvent_call st opts 300999) = []
    \<and> axiosGets (getVodUrlForEvent_call st opts 301001) =
        [(''cam1:ev1'', ''http://nvr:5000/api/events/ev1'')]
    \<and> returned (getVodUrlForEvent_call st opts 301001) 0 = None"
proof -
  let ?opts = "\<lparr>cacheKey = ''cam1:ev1'', serverUrl = ''http://nvr:5000/api'', eventId = ''ev1''\<rparr>"
  let ?e = "\<lparr>vodUrl = Some ''http://nvr:5000/vod/cam1/start/10/end/20/index.m3u8'',
            fetchedAt = Some 1000, inFlight = None\<rparr>"
  let ?st = "initial_state\<lparr>vodUrlCache := [''cam1:ev1'' \<mapsto> ?e]\<rparr>"
  have h1: "vodUrlCache ?st (cacheKey ?opts) = Some ?e" by simp
  have h2: "vodUrl ?e = Some ''http://nvr:5000/vod/cam1/start/10/end/20/index.m3u8''" by simp
  have h3: "''http://nvr:5000/vod/cam1/start/10/end/20/index.m3u8'' \<noteq> []" by simp
  have h4: "fetchedAt ?e = Some 1000" by simp
  have h5: "(1000::int) \<noteq> 0" by simp
  have st0: "axiosGets ?st = []" "returned ?st = Map.empty" "nextCall ?st = 0"
    by (simp_all add: initial_state_def)
  from getVodUrlForEvent_ttl [OF h1 h2 h3 h4 h5, of 300999]
  have hit: "getVodUrlForEvent_call ?st ?opts 300999 =
      ?st\<lparr>nextCall := Suc (nextCall ?st),
          returned := (returned ?st)(nextCall ?st \<mapsto>
            Inr ''http://nvr:5000/vod/cam1/start/10/end/20/index.m3u8'')\<rparr>"
    by simp
  from getVodUrlForEvent_ttl [OF h1 h2 h3 h4 h5, of 301001]
  have miss: "axiosGets (getVodUrlForEvent_call ?st ?opts 301001) =
        axiosGets ?st @ [(''cam1:ev1'', ''http://nvr:5000/api/events/ev1'')]"
      "returned (getVodUrlForEvent_call ?st ?opts 301001) = returned ?st"
    by simp_all
  show ?thesis
    unfolding Let_def hit miss by (simp add: initial_state_def)
qed

text \<open>
  \<^bold>\<open>C3\<close> (failure atomicity). When the answer to a pending computation arrives, the in-flight
  marker of its entry is cleared whatever the outcome, and every invocation waiting for it
  gets that outcome. When the outcome is an error (the request was rejected, or the server
  URL did not parse), each waiting invocation throws that error, the cached URL and timestamp
  of the entry are what they were, and the key is not wedged: the next call for the key that
  finds no fresh value issues a new request.
\<close>

theorem getVodUrlForEvent_failure:
  fixes URL_origin :: "string \<Rightarrow> thrown + string"
    and resp :: "thrown + DetectionData" and now :: int
  assumes pend: "promises st p = Some (Pending k opts ws)"
    and waiting: "ws \<noteq> []"
  defines "st' \<equiv> settle URL_origin st p resp now"
  shows "inFlight (entry_of st' k) = None
       \<and> (\<forall>c \<in> set ws. returned st' c = Some (compute_vodUrl URL_origin opts resp))
       \<and> (\<forall>err. compute_vodUrl URL_origin opts resp = Inl err \<longrightarrow>
            vodUrl (entry_of st' k) = vodUrl (entry_of st k)
          \<and> fetchedAt (entry_of st' k) = fetchedAt (entry_of st k)
          \<and> (\<forall>o' t. cacheKey o' = k \<and> \<not> cache_hit (vodUrlCache st' k) t \<longrightarrow>
                axiosGets (getVodUrlForEvent_call st' o' t) =
                  axiosGets st @ [(k, serverUrl o' @ ''/events/'' @ eventId o')]))"
proof (intro conjI allI impI ballI)
  show idle: "inFlight (entry_of st' k) = None"
    unfolding st'_def settle_pending_entry [OF pend waiting] by (simp split: sum.splits)
  show "returned st' c = Some (compute_vodUrl URL_origin opts resp)" if "c \<in> set ws" for c
    unfolding st'_def using that by (simp add: settle_pending(5) [OF pend])
  fix err
  assume fail: "compute_vodUrl URL_origin opts resp = Inl err"
  show "vodUrl (entry_of st' k) = vodUrl (entry_of st k)"
    unfolding st'_def settle_pending_entry [OF pend waiting] by (simp add: fail)
  show "fetchedAt (entry_of st' k) = fetchedAt (entry_of st k)"
    unfolding st'_def settle_pending_entry [OF pend waiting] by (simp add: fail)
  fix o' :: options and t :: int
  assume "cacheKey o' = k \<and> \<not> cache_hit (vodUrlCache st' k) t"
  then have miss: "\<not> cache_hit (vodUrlCache st' (cacheKey o')) t"
    and idle': "inFlight (entry_of st' (cacheKey o')) = None" and key: "cacheKey o' = k"
    using idle by simp_all
  show "axiosGets (getVodUrlForEvent_call st' o' t) =
      axiosGets st @ [(k, serverUrl o' @ ''/events/'' @ eventId o')]"
    unfolding call_create [OF miss idle'] using key
    by (simp add: st'_def settle_pending(2) [OF pend])
qed

theorem getVodUrlForEvent_failure_witness:
  "let opts = \<lparr>cacheKey = ''cam1:ev1'', serverUrl = ''http://nvr:5000/api'', eventId = ''ev1''\<rparr>;
       e = \<lparr>vodUrl = Some ''http://nvr:5000/vod/cam1/start/10/end/20/index.m3u8'',
            fetchedAt = Some 1000, inFlight = Some 0\<rparr>;
       st = \<lparr>vodUrlCache = [''cam1:ev1'' \<mapsto> e],
             promises = [0 \<mapsto> Pending ''cam1:ev1'' opts [0, 1]],
             axiosGets = [(''cam1:ev1'', ''http://nvr:5000/api/events/ev1'')],
             returned = Map.empty, nextPromise = 1, nextCall = 2\<rparr>;
       st' = settle (\<lambda>u. Inr ''http://nvr:5000'') st 0 (Inl (ErrorObj ''timeout'')) 400000
   in vodUrlCache st' ''cam1:ev1'' = Some (e\<lparr>inFlight := None\<rparr>)
    \<and> returned st' 0 = Some (Inl (ErrorObj ''timeout''))
    \<and> returned st' 1 = Some (Inl (ErrorObj ''timeout''))
    \<and> axiosGets (getVodUrlForEvent_call st' opts 400001) =
        [(''cam1:ev1'', ''http://nvr:5000/api/events/ev1''),
         (''cam1:ev1'', ''http://nvr:5000/api/events/ev1'')]"
proof -
  let ?opts = "\<lparr>cacheKey = ''cam1:ev1'', serverUrl = ''http://nvr:5000/api'', eventId = ''ev1''\<rparr>"
  let ?e = "\<lparr>vodUrl = Some ''http://nvr:5000/vod/cam1/start/10/end/20/index.m3u8'',
            fetchedAt = Some 1000, inFlight = Some 0\<rparr>"
  let ?st = "\<lparr>vodUrlCache = [''cam1:ev1'' \<mapsto> ?e],
             promises = [0 \<mapsto> Pending ''cam1:ev1'' ?opts [0, 1]],
             axiosGets = [(''cam1:ev1'', ''http://nvr:5000/api/events/ev1'')],
             returned = Map.empty, nextPromise = 1, nextCall = 2\<rparr>"
  let ?U = "\<lambda>u::string. (Inr ''http://nvr:5000'' :: thrown + string)"
  let ?st' = "settle ?U ?st 0 (Inl (ErrorObj ''timeout'')) 400000"
  have h1: "promises ?st 0 = Some (Pending ''cam1:ev1'' ?opts [0, 1])" by simp
  have h2: "[0, 1::nat] \<noteq> []" by simp
  have cache: "vodUrlCache ?st' ''cam1:ev1'' = Some (?e\<lparr>inFlight := None\<rparr>)"
    by (simp add: model_defs Let_def)
  have miss: "\<not> cache_hit (vodUrlCache ?st' ''cam1:ev1'') 400001"
    unfolding cache by (simp add: cache_hit_def VOD_URL_CACHE_TTL_MS_def)
  from getVodUrlForEvent_failure [OF h1 h2, of ?U "Inl (ErrorObj ''timeout'')" 400000] miss
  have "returned ?st' 0 = Some (Inl (ErrorObj ''timeout''))"
    and "returned ?st' 1 = Some (Inl (ErrorObj ''timeout''))"
    and "axiosGets (getVodUrlForEvent_call ?st' ?opts 400001) =
        [(''cam1:ev1'', ''http://nvr:5000/api/events/ev1''),
         (''cam1:ev1'', ''http://nvr:5000/api/events/ev1'')]"
    by (simp_all add: compute_vodUrl_def)
  with cache show ?thesis
    unfolding Let_def by simp
qed


section \<open>Properties of the streaming gateway\<close>

lemma webhook_branches_seg:
  assumes "toLowerCase (case searchParams_get url ''hls'' of None \<Rightarrow> [] | Some v \<Rightarrow> v) = ''seg''"
  shows "\<not> list_ex resolves_manifest (fst (webhook_branches g url dev d ev webhook))"
  using assms
  by (simp add: webhook_branches_def resolves_manifest_def Let_def split: sum.splits option.splits)

lemma inner_catch_sends: "\<not> list_ex resolves_manifest (fst (inner_catch e))"
  by (simp add: inner_catch_def resolves_manifest_def split: option.splits sum.splits)

lemma outer_catch_sends: "\<not> list_ex resolves_manifest (fst (outer_catch d ev u e))"
  by (simp add: outer_catch_def resolves_manifest_def split: sum.splits)

lemma dispatch_seg:
  assumes "toLowerCase (case searchParams_get url ''hls'' of None \<Rightarrow> [] | Some v \<Rightarrow> v) = ''seg''"
  shows "\<not> list_ex resolves_manifest (fst (dispatch g url d ev))"
proof -
  have quiet: "\<not> list_ex resolves_manifest effs"
    if "webhook_branches g url dev d ev webhook = (effs, r)" for dev webhook effs r
    using webhook_branches_seg [OF assms, of g dev d ev webhook] that by simp
  have caught: "\<not> list_ex resolves_manifest sent" if "inner_catch e = (sent, leaving)"
    for e sent leaving
    using inner_catch_sends [of e] that by simp
  show ?thesis
    using quiet caught
    by (auto simp: dispatch_def Let_def resolves_manifest_def
        split: option.splits prod.splits ending.splits)
qed

lemma webhook_exception_cases:
  "(stringify_throws e = None \<and> message_of e = Inr m \<longrightarrow>
      webhook_exception d ev u e = ([Send (WebhookError e) (Some 400)], None))
 \<and> (stringify_throws e = Some (ErrorObj t) \<longrightarrow>
      webhook_exception d ev u e = ([Send (DataParsingError (Some t) d ev u) (Some 500)], None))
 \<and> (stringify_throws e = None \<and> message_of e = Inl (ErrorObj t) \<longrightarrow>
      webhook_exception d ev u e = ([Send (DataParsingError (Some t) d ev u) (Some 500)], None))"
  by (simp add: webhook_exception_def inner_catch_def outer_catch_def)

lemma onRequest_known_device:
  assumes parse: "parse_URL g (''http://localhost'' @ request_url) = Inr url"
    and dev_id: "searchParams_get url ''deviceId'' = Some d" "d \<noteq> []"
    and ev_id: "searchParams_get url ''eventId'' = Some ev" "ev \<noteq> []"
    and mixins: "videoclipsDevice g = Some currentMixinsMap" "currentMixinsMap d = Some dev"
  shows "getLogger dev = Some e \<Longrightarrow>
           onRequest g request_url = outer_catch d ev request_url e"
    and "getLogger dev = None \<Longrightarrow>
           webhook_branches g url dev d ev (element (split_slash (pathname url)) 5) = (effs, Returned)
           \<Longrightarrow> onRequest g request_url = (effs, None)"
    and "getLogger dev = None \<Longrightarrow>
           webhook_branches g url dev d ev (element (split_slash (pathname url)) 5) = (effs, Threw e)
           \<Longrightarrow> onRequest g request_url =
                 (effs @ fst (webhook_exception d ev request_url e),
                  snd (webhook_exception d ev request_url e))"
proof -
  have req: "onRequest g request_url =
      (case dispatch g url d ev of
         (effs, None) \<Rightarrow> (effs, None)
       | (effs, Some e) \<Rightarrow>
           (case outer_catch d ev request_url e of (sent, leaving) \<Rightarrow> (effs @ sent, leaving)))"
    using parse dev_id ev_id by (simp add: onRequest_def Let_def truthy_str_def)
  show "onRequest g request_url = outer_catch d ev request_url e" if "getLogger dev = Some e"
    using that mixins by (simp add: req dispatch_def Let_def split: prod.splits)
  show "onRequest g request_url = (effs, None)"
    if "getLogger dev = None"
      and "webhook_branches g url dev d ev (element (split_slash (pathname url)) 5) = (effs, Returned)"
    using that mixins by (simp add: req dispatch_def Let_def)
  show "onRequest g request_url =
          (effs @ fst (webhook_exception d ev request_url e),
           snd (webhook_exception d ev request_url e))"
    if "getLogger dev = None"
      and "webhook_branches g url dev d ev (element (split_slash (pathname url)) 5) = (effs, Threw e)"
    using that mixins
    by (simp add: req dispatch_def Let_def webhook_exception_def split: prod.splits option.splits)
qed

lemmas example_defs = thumbnail_failure_gateway_def logger_failure_gateway_def
  undefined_failure_gateway_def example_url_def example_urls_def example_mixin_def

text \<open>
  \<^bold>\<open>C4\<close> (segment path). A request whose \<^verbatim>\<open>hls\<close> parameter is \<^verbatim>\<open>seg\<close> in any letter case never
  calls \<^verbatim>\<open>getVodUrlForEvent\<close>, whatever else the request and the collaborators are. When it is a
  videoclip request with both identifiers, for a known device, the first effect is the call of
  \<^verbatim>\<open>streamVideoclipFromUrl\<close> with the \<^verbatim>\<open>videoUrl\<close> that the device's \<^verbatim>\<open>getVideoclipUrls\<close> gave and
  with no manifest URL. Nothing follows it when the stream completes; when the stream throws,
  what follows is the answer of the handlers to that exception, which for an \<^verbatim>\<open>Error\<close> is the
  one response with status 400.
\<close>

theorem segment_request_skips_manifest_resolution:
  assumes parse: "parse_URL g (''http://localhost'' @ request_url) = Inr url"
    and seg: "toLowerCase (case searchParams_get url ''hls'' of None \<Rightarrow> [] | Some v \<Rightarrow> v) = ''seg''"
  shows "\<not> list_ex resolves_manifest (fst (onRequest g request_url))
       \<and> (\<forall>d ev currentMixinsMap dev urls.
             searchParams_get url ''deviceId'' = Some d \<and> d \<noteq> []
           \<and> searchParams_get url ''eventId'' = Some ev \<and> ev \<noteq> []
           \<and> element (split_slash (pathname url)) 5 = Some ''videoclip''
           \<and> videoclipsDevice g = Some currentMixinsMap \<and> currentMixinsMap d = Some dev
           \<and> getLogger dev = None \<and> getVideoclipUrls dev ev = Inr urls
           \<longrightarrow> (let args = \<lparr>arg_videoUrl = videoUrl urls, arg_vodUrl = None, arg_deviceId = d,
                              arg_eventId = ev, arg_videoclipMode = videoclipMode dev\<rparr>
                in fst (onRequest g request_url) =
                     StreamVideoclipFromUrl args #
                       (case streamVideoclipFromUrl g args of
                          None \<Rightarrow> []
                        | Some e \<Rightarrow> fst (webhook_exception d ev request_url e))
                 \<and> (\<forall>m. streamVideoclipFromUrl g args = Some (ErrorObj m) \<longrightarrow>
                       fst (onRequest g request_url) =
                         [StreamVideoclipFromUrl args,
                          Send (WebhookError (ErrorObj m)) (Some 400)])))"
proof (intro conjI allI impI)
  show "\<not> list_ex resolves_manifest (fst (onRequest g request_url))"
  proof (cases "\<not> truthy_str (searchParams_get url ''deviceId'')
              \<or> \<not> truthy_str (searchParams_get url ''eventId'')")
    case True
    with parse show ?thesis
      by (auto simp: onRequest_def Let_def resolves_manifest_def)
  next
    case False
    let ?d = "the (searchParams_get url ''deviceId'')"
    let ?ev = "the (searchParams_get url ''eventId'')"
    obtain effs r where disp: "dispatch g url ?d ?ev = (effs, r)"
      by (cases "dispatch g url ?d ?ev")
    with dispatch_seg [OF seg, of g ?d ?ev] have quiet: "\<not> list_ex resolves_manifest effs"
      by simp
    show ?thesis
    proof (cases r)
      case None
      with parse False disp quiet show ?thesis
        by (simp add: onRequest_def Let_def)
    next
      case (Some e)
      obtain sent leaving where oc: "outer_catch ?d ?ev request_url e = (sent, leaving)"
        by (cases "outer_catch ?d ?ev request_url e")
      with outer_catch_sends [of ?d ?ev request_url e]
      have "\<not> list_ex resolves_manifest sent" by simp
      with parse False disp quiet Some oc show ?thesis
        by (simp add: onRequest_def Let_def)
    qed
  qed
next
  fix d ev currentMixinsMap dev urls
  assume a: "searchParams_get url ''deviceId'' = Some d \<and> d \<noteq> []
           \<and> searchParams_get url ''eventId'' = Some ev \<and> ev \<noteq> []
           \<and> element (split_slash (pathname url)) 5 = Some ''videoclip''
           \<and> videoclipsDevice g = Some currentMixinsMap \<and> currentMixinsMap d = Some dev
           \<and> getLogger dev = None \<and> getVideoclipUrls dev ev = Inr urls"
  let ?args = "\<lparr>arg_videoUrl = videoUrl urls, arg_vodUrl = None, arg_deviceId = d,
                 arg_eventId = ev, arg_videoclipMode = videoclipMode dev\<rparr>"
  from a have known: "searchParams_get url ''deviceId'' = Some d" "d \<noteq> []"
    "searchParams_get url ''eventId'' = Some ev" "ev \<noteq> []"
    "videoclipsDevice g = Some currentMixinsMap" "currentMixinsMap d = Some dev"
    and logger: "getLogger dev = None"
    by simp_all
  have wb: "webhook_branches g url dev d ev (element (split_slash (pathname url)) 5) =
      (case streamVideoclipFromUrl g ?args of
         Some e \<Rightarrow> ([StreamVideoclipFromUrl ?args], Threw e)
       | None \<Rightarrow> ([StreamVideoclipFromUrl ?args], Returned))"
    using a seg by (simp add: webhook_branches_def Let_def)
  have main: "fst (onRequest g request_url) =
          StreamVideoclipFromUrl ?args #
            (case streamVideoclipFromUrl g ?args of
               None \<Rightarrow> []
             | Some e \<Rightarrow> fst (webhook_exception d ev request_url e))"
  proof (cases "streamVideoclipFromUrl g ?args")
    case None
    with wb have "webhook_branches g url dev d ev (element (split_slash (pathname url)) 5) =
        ([StreamVideoclipFromUrl ?args], Returned)" by simp
    from onRequest_known_device(2) [OF parse known logger this] None show ?thesis by simp
  next
    case (Some e)
    with wb have "webhook_branches g url dev d ev (element (split_slash (pathname url)) 5) =
        ([StreamVideoclipFromUrl ?args], Threw e)" by simp
    from onRequest_known_device(3) [OF parse known logger this] Some show ?thesis by simp
  qed
  have err: "fst (onRequest g request_url) =
        [StreamVideoclipFromUrl ?args, Send (WebhookError (ErrorObj m)) (Some 400)]"
    if "streamVideoclipFromUrl g ?args = Some (ErrorObj m)" for m
    using main that by (simp add: webhook_exception_def inner_catch_def)
  from main err
  show "let args = ?args
     in fst (onRequest g request_url) =
          StreamVideoclipFromUrl args #
            (case streamVideoclipFromUrl g args of
               None \<Rightarrow> []
             | Some e \<Rightarrow> fst (webhook_exception d ev request_url e))
      \<and> (\<forall>m. streamVideoclipFromUrl g args = Some (ErrorObj m) \<longrightarrow>
            fst (onRequest g request_url) =
              [StreamVideoclipFromUrl args, Send (WebhookError (ErrorObj m)) (Some 400)])"
    unfolding Let_def by blast
qed

theorem segment_request_skips_manifest_resolution_witness:
  "let dev = \<lparr>getLogger = None,
              getVideoclipUrls = (\<lambda>ev. Inr \<lparr>videoUrl = ''http://nvr:5000/api/events/e1/clip.mp4'',
                                           thumbnailUrl = ''http://nvr:5000/api/events/e1/thumbnail.jpg''\<rparr>),
              videoclipMode = None\<rparr>;
       g = \<lparr>parse_URL = (\<lambda>u. Inr \<lparr>pathname = ''/endpoint/@scrypted/frigate-bridge/public/videoclip'',
                                   searchParams = [(''deviceId'', ''12''), (''eventId'', ''e1''),
                                                   (''hls'', ''SeG'')]\<rparr>),
            videoclipsDevice = Some [''12'' \<mapsto> dev],
            setting_serverUrl = ''http://nvr:5000/api'',
            streamVideoclipFromUrl = (\<lambda>a. None),
            await_getVodUrlForEvent = (\<lambda>opts. Inr ''http://nvr:5000/vod/cam/start/1/end/2/index.m3u8''),
            axios_get = (\<lambda>u. Inr ''jpeg'')\<rparr>
   in fst (onRequest g ''/endpoint/@scrypted/frigate-bridge/public/videoclip?deviceId=12&eventId=e1&hls=SeG'') =
        [StreamVideoclipFromUrl \<lparr>arg_videoUrl = ''http://nvr:5000/api/events/e1/clip.mp4'',
           arg_vodUrl = None, arg_deviceId = ''12'', arg_eventId = ''e1'',
           arg_videoclipMode = None\<rparr>]
    \<and> \<not> list_ex resolves_manifest
          (fst (onRequest g ''/endpoint/@scrypted/frigate-bridge/public/videoclip?deviceId=12&eventId=e1&hls=SeG''))"
proof -
  let ?urls = "\<lparr>videoUrl = ''http://nvr:5000/api/events/e1/clip.mp4'',
                 thumbnailUrl = ''http://nvr:5000/api/events/e1/thumbnail.jpg''\<rparr>"
  let ?dev = "\<lparr>getLogger = None, getVideoclipUrls = (\<lambda>ev::string. Inr ?urls),
                videoclipMode = None\<rparr>"
  let ?url = "\<lparr>pathname = ''/endpoint/@scrypted/frigate-bridge/public/videoclip'',
                searchParams = [(''deviceId'', ''12''), (''eventId'', ''e1''), (''hls'', ''SeG'')]\<rparr>"
  let ?g = "\<lparr>parse_URL = (\<lambda>u::string. Inr ?url),
            videoclipsDevice = Some [''12'' \<mapsto> ?dev],
            setting_serverUrl = ''http://nvr:5000/api'',
            streamVideoclipFromUrl = (\<lambda>a. None),
            await_getVodUrlForEvent = (\<lambda>opts. Inr ''http://nvr:5000/vod/cam/start/1/end/2/index.m3u8''),
            axios_get = (\<lambda>u::string. Inr ''jpeg'')\<rparr>"
  let ?req = "''/endpoint/@scrypted/frigate-bridge/public/videoclip?deviceId=12&eventId=e1&hls=SeG''"
  let ?args = "\<lparr>arg_videoUrl = ''http://nvr:5000/api/events/e1/clip.mp4'',
           arg_vodUrl = None, arg_deviceId = ''12'', arg_eventId = ''e1'',
           arg_videoclipMode = None\<rparr>"
  have h1: "parse_URL ?g (''http://localhost'' @ ?req) = Inr ?url" by simp
  have h2: "toLowerCase (case searchParams_get ?url ''hls'' of None \<Rightarrow> [] | Some v \<Rightarrow> v) = ''seg''"
    by (simp add: searchParams_get_def toLowerCase_def toLowerCase_char_def)
  have h3: "searchParams_get ?url ''deviceId'' = Some ''12'' \<and> ''12'' \<noteq> []
          \<and> searchParams_get ?url ''eventId'' = Some ''e1'' \<and> ''e1'' \<noteq> []
          \<and> element (split_slash (pathname ?url)) 5 = Some ''videoclip''
          \<and> videoclipsDevice ?g = Some [''12'' \<mapsto> ?dev] \<and> [''12'' \<mapsto> ?dev] ''12'' = Some ?dev
          \<and> getLogger ?dev = None \<and> getVideoclipUrls ?dev ''e1'' = Inr ?urls"
    by (simp add: searchParams_get_def element_def)
  note main = segment_request_skips_manifest_resolution [OF h1 h2]
  from main have quiet: "\<not> list_ex resolves_manifest (fst (onRequest ?g ?req))"
    by (rule conjunct1)
  from main [THEN conjunct2, rule_format, OF h3]
  have "fst (onRequest ?g ?req) =
          StreamVideoclipFromUrl ?args #
            (case streamVideoclipFromUrl ?g ?args of
               None \<Rightarrow> []
             | Some e \<Rightarrow> fst (webhook_exception ''12'' ''e1'' ?req e))"
    unfolding Let_def by simp
  then have "fst (onRequest ?g ?req) = [StreamVideoclipFromUrl ?args]"
    by simp
  with quiet show ?thesis
    unfolding Let_def by blast
qed

text \<open>
  \<^bold>\<open>C5\<close> as stated does not hold. The request has both identifiers and its device is known;
  the thumbnail fetch, a step of the dispatch of the webhook, throws an \<^verbatim>\<open>Error\<close>. The inner
  handler (lines 541-548) answers with status 400 and the body
  \<^verbatim>\<open>${JSON.stringify(e)}, ${e.message}\<close>, which carries no request identifier, and no response
  with status 500 is sent.
\<close>

theorem onRequest_webhook_exception_counterexample:
  "onRequest thumbnail_failure_gateway example_request =
     ([AxiosGet ''http://nvr:5000/api/events/e1/thumbnail.jpg'',
       Send (WebhookError (ErrorObj ''connect ECONNREFUSED'')) (Some 400)], None)
   \<and> \<not> sent_500 (fst (onRequest thumbnail_failure_gateway example_request))"
  by (simp add: onRequest_def dispatch_def webhook_branches_def inner_catch_def
      thumbnail_failure_gateway_def
      example_request_def example_url_def example_urls_def example_mixin_def
      searchParams_get_def truthy_str_def element_def sent_500_def status_500_def Let_def)

text \<open>
  \<^bold>\<open>C5\<close>, amended. For a request with both identifiers whose device is known, the handler has
  two tiers.

  An exception \<open>e\<close> thrown inside the videoclip or the thumbnail branch (by
  \<^verbatim>\<open>getVideoclipUrls\<close>, by the segment stream, by \<^verbatim>\<open>getVodUrlForEvent\<close>, by the thumbnail fetch) is
  caught by the inner handler. It answers with status 400 and a body made of
  \<^verbatim>\<open>JSON.stringify(e)\<close> and \<^verbatim>\<open>e.message\<close>, without the request identifiers. Only when making that
  body throws (\<^verbatim>\<open>JSON.stringify\<close> refuses the value, or the value is \<^verbatim>\<open>undefined\<close> or \<^verbatim>\<open>null\<close>) does
  the outer handler answer, with status 500, the message of that second error, the device id,
  the event id and the request URL.

  An exception thrown before the branches (by the mixin's \<^verbatim>\<open>getLogger\<close>) is answered by the
  outer handler with status 500, the error's message and the identifiers; when the thrown
  value is \<^verbatim>\<open>undefined\<close> or \<^verbatim>\<open>null\<close>, reading its message throws, no response is sent and the
  handler's promise is rejected.

  An exception of the clip stream that follows a resolved manifest is swallowed: no error
  response is sent.
\<close>

theorem onRequest_exception_responses:
  assumes parse: "parse_URL g (''http://localhost'' @ request_url) = Inr url"
    and dev_id: "searchParams_get url ''deviceId'' = Some d" "d \<noteq> []"
    and ev_id: "searchParams_get url ''eventId'' = Some ev" "ev \<noteq> []"
    and mixins: "videoclipsDevice g = Some currentMixinsMap" "currentMixinsMap d = Some dev"
  defines "webhook \<equiv> element (split_slash (pathname url)) 5"
  defines "seg \<equiv> toLowerCase (case searchParams_get url ''hls'' of None \<Rightarrow> [] | Some v \<Rightarrow> v) = ''seg''"
  defines "opts \<equiv> \<lparr>cacheKey = d @ '':'' @ ev, serverUrl = setting_serverUrl g, eventId = ev\<rparr>"
  defines "args \<equiv> (\<lambda>urls vod. \<lparr>arg_videoUrl = videoUrl urls, arg_vodUrl = vod, arg_deviceId = d,
                                 arg_eventId = ev, arg_videoclipMode = videoclipMode dev\<rparr>)"
  defines "answered \<equiv> (\<lambda>effs e. onRequest g request_url =
                          (effs @ fst (webhook_exception d ev request_url e),
                           snd (webhook_exception d ev request_url e)))"
  shows "(\<forall>e m. getLogger dev = Some e \<and> message_of e = Inr m \<longrightarrow>
            onRequest g request_url =
              ([Send (DataParsingError m d ev request_url) (Some 500)], None))
       \<and> (\<forall>e t. getLogger dev = Some e \<and> message_of e = Inl t \<longrightarrow>
            onRequest g request_url = ([], Some t))
       \<and> (\<forall>e m. stringify_throws e = None \<and> message_of e = Inr m \<longrightarrow>
            webhook_exception d ev request_url e = ([Send (WebhookError e) (Some 400)], None))
       \<and> (\<forall>e t. stringify_throws e = Some (ErrorObj t)
                  \<or> (stringify_throws e = None \<and> message_of e = Inl (ErrorObj t)) \<longrightarrow>
            webhook_exception d ev request_url e =
              ([Send (DataParsingError (Some t) d ev request_url) (Some 500)], None))
       \<and> (getLogger dev = None \<longrightarrow>
            (\<forall>e. (webhook = Some ''videoclip'' \<or> webhook = Some ''thumbnail'')
                  \<and> getVideoclipUrls dev ev = Inl e \<longrightarrow> answered [] e)
          \<and> (\<forall>urls e. webhook = Some ''videoclip'' \<and> getVideoclipUrls dev ev = Inr urls \<and> seg
                  \<and> streamVideoclipFromUrl g (args urls None) = Some e \<longrightarrow>
                answered [StreamVideoclipFromUrl (args urls None)] e)
          \<and> (\<forall>urls e. webhook = Some ''videoclip'' \<and> getVideoclipUrls dev ev = Inr urls \<and> \<not> seg
                  \<and> await_getVodUrlForEvent g opts = Inl e \<longrightarrow>
                answered [GetVodUrlForEvent opts] e)
          \<and> (\<forall>urls vod. webhook = Some ''videoclip'' \<and> getVideoclipUrls dev ev = Inr urls \<and> \<not> seg
                  \<and> await_getVodUrlForEvent g opts = Inr vod \<longrightarrow>
                onRequest g request_url =
                  ([GetVodUrlForEvent opts, StreamVideoclipFromUrl (args urls (Some vod))], None))
          \<and> (\<forall>urls e. webhook = Some ''thumbnail'' \<and> getVideoclipUrls dev ev = Inr urls
                  \<and> axios_get g (thumbnailUrl urls) = Inl e \<longrightarrow>
                answered [AxiosGet (thumbnailUrl urls)] e))"
proof -
  note known = onRequest_known_device [OF parse dev_id ev_id mixins]
  show ?thesis
  proof (intro conjI allI impI)
    fix e m assume "getLogger dev = Some e \<and> message_of e = Inr m"
    then show "onRequest g request_url =
        ([Send (DataParsingError m d ev request_url) (Some 500)], None)"
      using known(1) [of e] by (simp add: outer_catch_def)
  next
    fix e t assume "getLogger dev = Some e \<and> message_of e = Inl t"
    then show "onRequest g request_url = ([], Some t)"
      using known(1) [of e] by (simp add: outer_catch_def)
  next
    fix e m assume "stringify_throws e = None \<and> message_of e = Inr m"
    then show "webhook_exception d ev request_url e = ([Send (WebhookError e) (Some 400)], None)"
      using webhook_exception_cases [of e m d ev request_url] by blast
  next
    fix e t
    assume "stringify_throws e = Some (ErrorObj t)
              \<or> (stringify_throws e = None \<and> message_of e = Inl (ErrorObj t))"
    then show "webhook_exception d ev request_url e =
        ([Send (DataParsingError (Some t) d ev request_url) (Some 500)], None)"
      using webhook_exception_cases [of e _ d ev request_url t] by blast
  next
    fix e
    assume ok: "getLogger dev = None"
      and a: "(webhook = Some ''videoclip'' \<or> webhook = Some ''thumbnail'')
                \<and> getVideoclipUrls dev ev = Inl e"
    then have "webhook_branches g url dev d ev webhook = ([], Threw e)"
      by (auto simp: webhook_branches_def)
    from known(3) [OF ok this [unfolded webhook_def]] show "answered [] e"
      by (simp add: answered_def)
  next
    fix urls e
    assume ok: "getLogger dev = None"
      and a: "webhook = Some ''videoclip'' \<and> getVideoclipUrls dev ev = Inr urls \<and> seg
                \<and> streamVideoclipFromUrl g (args urls None) = Some e"
    then have "webhook_branches g url dev d ev webhook =
        ([StreamVideoclipFromUrl (args urls None)], Threw e)"
      by (simp add: webhook_branches_def Let_def seg_def args_def)
    from known(3) [OF ok this [unfolded webhook_def]]
    show "answered [StreamVideoclipFromUrl (args urls None)] e"
      by (simp add: answered_def)
  next
    fix urls e
    assume ok: "getLogger dev = None"
      and a: "webhook = Some ''videoclip'' \<and> getVideoclipUrls dev ev = Inr urls \<and> \<not> seg
                \<and> await_getVodUrlForEvent g opts = Inl e"
    then have "webhook_branches g url dev d ev webhook = ([GetVodUrlForEvent opts], Threw e)"
      by (simp add: webhook_branches_def Let_def seg_def opts_def)
    from known(3) [OF ok this [unfolded webhook_def]]
    show "answered [GetVodUrlForEvent opts] e"
      by (simp add: answered_def)
  next
    fix urls vod
    assume ok: "getLogger dev = None"
      and a: "webhook = Some ''videoclip'' \<and> getVideoclipUrls dev ev = Inr urls \<and> \<not> seg
                \<and> await_getVodUrlForEvent g opts = Inr vod"
    then have "webhook_branches g url dev d ev webhook =
        ([GetVodUrlForEvent opts, StreamVideoclipFromUrl (args urls (Some vod))], Returned)"
      by (simp add: webhook_branches_def Let_def seg_def opts_def args_def)
    from known(2) [OF ok this [unfolded webhook_def]]
    show "onRequest g request_url =
        ([GetVodUrlForEvent opts, StreamVideoclipFromUrl (args urls (Some vod))], None)" .
  next
    fix urls e
    assume ok: "getLogger dev = None"
      and a: "webhook = Some ''thumbnail'' \<and> getVideoclipUrls dev ev = Inr urls
                \<and> axios_get g (thumbnailUrl urls) = Inl e"
    then have "webhook_branches g url dev d ev webhook = ([AxiosGet (thumbnailUrl urls)], Threw e)"
      by (simp add: webhook_branches_def)
    from known(3) [OF ok this [unfolded webhook_def]]
    show "answered [AxiosGet (thumbnailUrl urls)] e"
      by (simp add: answered_def)
  qed
qed

theorem onRequest_exception_responses_witness:
  "onRequest logger_failure_gateway example_request =
     ([Send (DataParsingError (Some ''storage is not ready'') ''12'' ''e1'' example_request)
         (Some 500)], None)
   \<and> onRequest thumbnail_failure_gateway example_request =
     ([AxiosGet ''http://nvr:5000/api/events/e1/thumbnail.jpg'',
       Send (WebhookError (ErrorObj ''connect ECONNREFUSED'')) (Some 400)], None)
   \<and> onRequest undefined_failure_gateway example_request =
     ([AxiosGet ''http://nvr:5000/api/events/e1/thumbnail.jpg'',
       Send (DataParsingError
               (Some (''Cannot read properties of undefined (reading '' @ quoted ''message'' @ '')''))
               ''12'' ''e1'' example_request) (Some 500)], None)"
proof -
  let ?bad = "example_mixin\<lparr>getLogger := Some (ErrorObj ''storage is not ready'')\<rparr>"
  let ?thumb = "''http://nvr:5000/api/events/e1/thumbnail.jpg''"
  let ?type_error = "''Cannot read properties of undefined (reading '' @ quoted ''message'' @ '')''"
  have p1: "parse_URL logger_failure_gateway (''http://localhost'' @ example_request) = Inr example_url"
    and p2: "parse_URL thumbnail_failure_gateway (''http://localhost'' @ example_request) = Inr example_url"
    and p3: "parse_URL undefined_failure_gateway (''http://localhost'' @ example_request) = Inr example_url"
    by (simp_all add: thumbnail_failure_gateway_def logger_failure_gateway_def
        undefined_failure_gateway_def)
  have d: "searchParams_get example_url ''deviceId'' = Some ''12''" "''12'' \<noteq> []"
    and e: "searchParams_get example_url ''eventId'' = Some ''e1''" "''e1'' \<noteq> []"
    by (simp_all add: searchParams_get_def example_url_def)
  have m1: "videoclipsDevice logger_failure_gateway = Some [''12'' \<mapsto> ?bad]"
    and m2: "videoclipsDevice thumbnail_failure_gateway = Some [''12'' \<mapsto> example_mixin]"
    and m3: "videoclipsDevice undefined_failure_gateway = Some [''12'' \<mapsto> example_mixin]"
    by (simp_all add: thumbnail_failure_gateway_def logger_failure_gateway_def
        undefined_failure_gateway_def)
  have l1: "[''12'' \<mapsto> ?bad] ''12'' = Some ?bad"
    and l2: "[''12'' \<mapsto> example_mixin] ''12'' = Some example_mixin"
    by simp_all
  have site: "getLogger example_mixin = None"
    "element (split_slash (pathname example_url)) 5 = Some ''thumbnail''"
    "getVideoclipUrls example_mixin ''e1'' = Inr example_urls"
    "thumbnailUrl example_urls = ?thumb"
    by (simp_all add: example_defs element_def)
  \<comment> \<open>the logger throws an \<^verbatim>\<open>Error\<close>\<close>
  from onRequest_exception_responses [OF p1 d e m1 l1]
  have "\<forall>e m. getLogger ?bad = Some e \<and> message_of e = Inr m \<longrightarrow>
            onRequest logger_failure_gateway example_request =
              ([Send (DataParsingError m ''12'' ''e1'' example_request) (Some 500)], None)"
    by (rule conjunct1)
  moreover have "getLogger ?bad = Some (ErrorObj ''storage is not ready'')
      \<and> message_of (ErrorObj ''storage is not ready'') = Inr (Some ''storage is not ready'')"
    by simp
  ultimately have first: "onRequest logger_failure_gateway example_request =
     ([Send (DataParsingError (Some ''storage is not ready'') ''12'' ''e1'' example_request)
         (Some 500)], None)"
    by blast
  \<comment> \<open>the thumbnail fetch throws an \<^verbatim>\<open>Error\<close>\<close>
  note t2 = onRequest_exception_responses [OF p2 d e m2 l2]
  from t2 have ok2: "\<forall>e m. stringify_throws e = None \<and> message_of e = Inr m \<longrightarrow>
        webhook_exception ''12'' ''e1'' example_request e = ([Send (WebhookError e) (Some 400)], None)"
    by blast
  from t2 have "getLogger example_mixin = None \<longrightarrow>
       (\<forall>urls e. element (split_slash (pathname example_url)) 5 = Some ''thumbnail''
            \<and> getVideoclipUrls example_mixin ''e1'' = Inr urls
            \<and> axios_get thumbnail_failure_gateway (thumbnailUrl urls) = Inl e \<longrightarrow>
          onRequest thumbnail_failure_gateway example_request =
            ([AxiosGet (thumbnailUrl urls)] @ fst (webhook_exception ''12'' ''e1'' example_request e),
             snd (webhook_exception ''12'' ''e1'' example_request e)))"
    by blast
  moreover have "axios_get thumbnail_failure_gateway (thumbnailUrl example_urls) =
           Inl (ErrorObj ''connect ECONNREFUSED'')"
    by (simp add: example_defs)
  ultimately have "onRequest thumbnail_failure_gateway example_request =
      ([AxiosGet (thumbnailUrl example_urls)]
         @ fst (webhook_exception ''12'' ''e1'' example_request (ErrorObj ''connect ECONNREFUSED'')),
       snd (webhook_exception ''12'' ''e1'' example_request (ErrorObj ''connect ECONNREFUSED'')))"
    using site by blast
  moreover from ok2 have "webhook_exception ''12'' ''e1'' example_request
        (ErrorObj ''connect ECONNREFUSED'') =
      ([Send (WebhookError (ErrorObj ''connect ECONNREFUSED'')) (Some 400)], None)"
    by simp
  ultimately have second: "onRequest thumbnail_failure_gateway example_request =
     ([AxiosGet ?thumb, Send (WebhookError (ErrorObj ''connect ECONNREFUSED'')) (Some 400)], None)"
    using site(4) by simp
  \<comment> \<open>the thumbnail fetch throws \<^verbatim>\<open>undefined\<close>\<close>
  note t3 = onRequest_exception_responses [OF p3 d e m3 l2]
  from t3 have bad3: "\<forall>e t. stringify_throws e = Some (ErrorObj t)
                  \<or> (stringify_throws e = None \<and> message_of e = Inl (ErrorObj t)) \<longrightarrow>
        webhook_exception ''12'' ''e1'' example_request e =
          ([Send (DataParsingError (Some t) ''12'' ''e1'' example_request) (Some 500)], None)"
    by blast
  from t3 have "getLogger example_mixin = None \<longrightarrow>
       (\<forall>urls e. element (split_slash (pathname example_url)) 5 = Some ''thumbnail''
            \<and> getVideoclipUrls example_mixin ''e1'' = Inr urls
            \<and> axios_get undefined_failure_gateway (thumbnailUrl urls) = Inl e \<longrightarrow>
          onRequest undefined_failure_gateway example_request =
            ([AxiosGet (thumbnailUrl urls)] @ fst (webhook_exception ''12'' ''e1'' example_request e),
             snd (webhook_exception ''12'' ''e1'' example_request e)))"
    by blast
  moreover have "axios_get undefined_failure_gateway (thumbnailUrl example_urls) = Inl ThrownUndefined"
    by (simp add: example_defs)
  ultimately have "onRequest undefined_failure_gateway example_request =
      ([AxiosGet (thumbnailUrl example_urls)]
         @ fst (webhook_exception ''12'' ''e1'' example_request ThrownUndefined),
       snd (webhook_exception ''12'' ''e1'' example_request ThrownUndefined))"
    using site by blast
  moreover from bad3 [rule_format, of ThrownUndefined ?type_error]
  have "webhook_exception ''12'' ''e1'' example_request ThrownUndefined =
      ([Send (DataParsingError (Some ?type_error) ''12'' ''e1'' example_request) (Some 500)], None)"
    by simp
  ultimately have third: "onRequest undefined_failure_gateway example_request =
     ([AxiosGet ?thumb,
       Send (DataParsingError (Some ?type_error) ''12'' ''e1'' example_request) (Some 500)], None)"
    using site(4) by simp
  from first second third show ?thesis by blast
qed

section \<open>Properties of stream discovery\<close>



lemma config_calls:
  "getConfiguration b force now stored p = (r, p', calls) \<Longrightarrow> set calls \<subseteq> {FetchConfig}"
  by (auto simp: getConfiguration_def split: if_splits sum.splits)

lemma raw_calls:
  "getConfigurationRawJson b now stored p = (r, p', calls) \<Longrightarrow> set calls \<subseteq> {FetchConfigRaw}"
  by (auto simp: getConfigurationRawJson_def split: if_splits sum.splits raw_data.splits)

lemmas discovery_defs = discoverBestConfiguredStreamUrlsAndProbe_def getConfigurationRawJson_def
  getConfiguration_def getBaseGo2rtcUrl_def strip_trailing_slashes_def go2rtc_stream_names_def
  camera_of_def camera_inputs_def configured_stream_def path_of_def truthy_str_def
  first_match_def matches_stream_def starts_with_def template_def getDetectedStreamKey_def
  mapLimit_def probe_item_def

text \<open>
  \<^bold>\<open>C6\<close> fails on the code. The relay registry has the streams \<^verbatim>\<open>cam\<close> and \<^verbatim>\<open>cam_sub\<close>, and the
  second input of the camera has the path \<^verbatim>\<open>rtsp://127.0.0.1:8554/cam_sub\<close>. The path has
  \<^verbatim>\<open>cam_sub\<close> as a segment and does not have \<^verbatim>\<open>cam\<close> as one, so the descriptor should be relayed
  to \<^verbatim>\<open>cam_sub\<close>. The code looks for the text \<^verbatim>\<open>/cam\<close> anywhere in the path, without checking
  where the name ends, finds it in \<^verbatim>\<open>/cam_sub\<close> and stops at this first name: both descriptors
  of the run are named \<^verbatim>\<open>cam\<close> and get the URL of the main stream, and the sub stream is lost.
\<close>

theorem discovery_relays_sub_stream_to_main:
  "discoverBestConfiguredStreamUrlsAndProbe relay_backend example_settings ''front'' rerun_times
     False None fresh_provider empty_storage =
   (Inr [\<lparr>cameraName = ''front'', streamName = ''cam'', streamId = ''stream_1'',
          source = go2rtc, stream_url = ''rtsp://10.0.0.2:8554/cam'', probedAt = 61000,
          ffprobe = Some (), probe_error = None\<rparr>,
         \<lparr>cameraName = ''front'', streamName = ''cam'', streamId = ''stream_2'',
          source = go2rtc, stream_url = ''rtsp://10.0.0.2:8554/cam'', probedAt = 61000,
          ffprobe = Some (), probe_error = None\<rparr>],
    \<lparr>config = Some relay_config, lastConfigFetch = Some 61100,
     configRawJson = Some relay_config, lastConfigRawJsonFetch = Some 61050\<rparr>,
    \<lparr>items = [''detectedStream:stream_1:url'' \<mapsto> ''rtsp://10.0.0.2:8554/cam'',
              ''detectedStream:stream_2:url'' \<mapsto> ''rtsp://10.0.0.2:8554/cam''],
     probedStreams = Some
        [\<lparr>cameraName = ''front'', streamName = ''cam'', streamId = ''stream_1'',
          source = go2rtc, stream_url = ''rtsp://10.0.0.2:8554/cam'', probedAt = 61000,
          ffprobe = Some (), probe_error = None\<rparr>,
         \<lparr>cameraName = ''front'', streamName = ''cam'', streamId = ''stream_2'',
          source = go2rtc, stream_url = ''rtsp://10.0.0.2:8554/cam'', probedAt = 61000,
          ffprobe = Some (), probe_error = None\<rparr>]\<rparr>,
    [FetchConfigRaw, FetchConfig, Ffprobe ''rtsp://10.0.0.2:8554/cam'',
     Ffprobe ''rtsp://10.0.0.2:8554/cam''])
   \<and> spec_segment_match ''rtsp://127.0.0.1:8554/cam_sub'' ''cam_sub''
   \<and> \<not> spec_segment_match ''rtsp://127.0.0.1:8554/cam_sub'' ''cam''"
proof -
  have cfg: "config_answer relay_backend = Inr (Some relay_config)"
    "raw_answer relay_backend = Inr (Parsed (Some relay_config))"
    "probe_outcome relay_backend = (\<lambda>u. Inr ())"
    by (simp_all add: relay_backend_def)
  have fields: "go2rtc_streams relay_config = Some [''cam'', ''cam_sub'']"
    "rtsp_username relay_config = None" "rtsp_password relay_config = None"
    "cameras relay_config = Some [''front'' \<mapsto>
        \<lparr>ffmpeg_inputs = Some [InputObject (Some ''rtsp://127.0.0.1:8554/cam''),
                               InputObject (Some ''rtsp://127.0.0.1:8554/cam_sub'')]\<rparr>]"
    by (simp_all add: relay_config_def)
  have run: "discoverBestConfiguredStreamUrlsAndProbe relay_backend example_settings ''front''
      rerun_times False None fresh_provider empty_storage =
   (Inr [\<lparr>cameraName = ''front'', streamName = ''cam'', streamId = ''stream_1'',
          source = go2rtc, stream_url = ''rtsp://10.0.0.2:8554/cam'', probedAt = 61000,
          ffprobe = Some (), probe_error = None\<rparr>,
         \<lparr>cameraName = ''front'', streamName = ''cam'', streamId = ''stream_2'',
          source = go2rtc, stream_url = ''rtsp://10.0.0.2:8554/cam'', probedAt = 61000,
          ffprobe = Some (), probe_error = None\<rparr>],
    \<lparr>config = Some relay_config, lastConfigFetch = Some 61100,
     configRawJson = Some relay_config, lastConfigRawJsonFetch = Some 61050\<rparr>,
    \<lparr>items = [''detectedStream:stream_1:url'' \<mapsto> ''rtsp://10.0.0.2:8554/cam'',
              ''detectedStream:stream_2:url'' \<mapsto> ''rtsp://10.0.0.2:8554/cam''],
     probedStreams = Some
        [\<lparr>cameraName = ''front'', streamName = ''cam'', streamId = ''stream_1'',
          source = go2rtc, stream_url = ''rtsp://10.0.0.2:8554/cam'', probedAt = 61000,
          ffprobe = Some (), probe_error = None\<rparr>,
         \<lparr>cameraName = ''front'', streamName = ''cam'', streamId = ''stream_2'',
          source = go2rtc, stream_url = ''rtsp://10.0.0.2:8554/cam'', probedAt = 61000,
          ffprobe = Some (), probe_error = None\<rparr>]\<rparr>,
    [FetchConfigRaw, FetchConfig, Ffprobe ''rtsp://10.0.0.2:8554/cam'',
     Ffprobe ''rtsp://10.0.0.2:8554/cam''])"
    by (simp add: discovery_defs cfg fields example_settings_def rerun_times_def
        fresh_provider_def empty_storage_def decimal.simps Let_def)
  have seg: "spec_segment_match ''rtsp://127.0.0.1:8554/cam_sub'' ''cam_sub''"
    "\<not> spec_segment_match ''rtsp://127.0.0.1:8554/cam_sub'' ''cam''"
    by (simp_all add: spec_segment_match_def ends_with_def starts_with_def)
  from run seg show ?thesis by blast
qed

text \<open>
  \<^bold>\<open>C7\<close> fails on the code. On the plugin that cached the raw configuration a minute ago, a
  forced run asks the backend for \<^verbatim>\<open>/config\<close> only: \<^verbatim>\<open>getConfigurationRawJson\<close> has no \<^verbatim>\<open>force\<close>
  parameter and answers from its cache, and the camera entry of the raw form is preferred to
  the one just fetched. The run enumerates, probes and persists the old input although the
  backend reports the new one.
\<close>

theorem forced_discovery_reads_cached_raw:
  "discoverBestConfiguredStreamUrlsAndProbe updated_backend example_settings ''front'' rerun_times
     True (Some 2) stale_provider empty_storage =
   (Inr [\<lparr>cameraName = ''front'', streamName = ''Stream 1'', streamId = ''stream_1'',
          source = input, stream_url = ''rtsp://10.0.0.5:554/old'', probedAt = 61000,
          ffprobe = Some (), probe_error = None\<rparr>],
    \<lparr>config = Some (config_with_input ''rtsp://10.0.0.5:554/new''), lastConfigFetch = Some 61100,
     configRawJson = Some (config_with_input ''rtsp://10.0.0.5:554/old''),
     lastConfigRawJsonFetch = Some 1000\<rparr>,
    \<lparr>items = [''detectedStream:stream_1:url'' \<mapsto> ''rtsp://10.0.0.5:554/old''],
     probedStreams = Some [\<lparr>cameraName = ''front'', streamName = ''Stream 1'',
          streamId = ''stream_1'', source = input, stream_url = ''rtsp://10.0.0.5:554/old'',
          probedAt = 61000, ffprobe = Some (), probe_error = None\<rparr>]\<rparr>,
    [FetchConfig, Ffprobe ''rtsp://10.0.0.5:554/old''])"
  by (simp add: discovery_defs updated_backend_def example_settings_def rerun_times_def
      stale_provider_def empty_storage_def config_with_input_def decimal.simps Let_def)

text \<open>
  \<^bold>\<open>C10\<close> (no inputs list). When both configuration reads succeed and neither the raw nor the
  parsed form gives the camera an \<^verbatim>\<open>ffmpeg.inputs\<close> list, the run throws the \<^verbatim>\<open>TypeError\<close> of
  \<^verbatim>\<open>inputs.forEach\<close>. It returns no descriptor list, the camera's storage is what it was
  (nothing is persisted), and the only requests made are the configuration reads: no probe.
\<close>

theorem discovery_without_inputs_throws:
  assumes raw: "getConfigurationRawJson b (t_raw ts) (t_raw_stored ts) p = (Inr raw, p1, calls1)"
    and cfg: "getConfiguration b force (t_config ts) (t_config_stored ts) p1 = (Inr cfg, p2, calls2)"
    and absent: "camera_inputs raw cfg camera_name = None"
  shows "discoverBestConfiguredStreamUrlsAndProbe b s camera_name ts force concurrency p st =
           (Inl (ErrorObj ''Cannot read properties of undefined (reading 'forEach')''),
            p2, st, calls1 @ calls2)
       \<and> (\<forall>u. Ffprobe u \<notin> set (calls1 @ calls2))"
proof
  show "discoverBestConfiguredStreamUrlsAndProbe b s camera_name ts force concurrency p st =
           (Inl (ErrorObj ''Cannot read properties of undefined (reading 'forEach')''),
            p2, st, calls1 @ calls2)"
    using raw cfg absent by (simp add: discoverBestConfiguredStreamUrlsAndProbe_def Let_def)
  from raw_calls [OF raw] config_calls [OF cfg]
  show "\<forall>u. Ffprobe u \<notin> set (calls1 @ calls2)" by auto
qed

theorem discovery_without_inputs_throws_witness:
  "let cfg = \<lparr>go2rtc_streams = None, rtsp_username = None, rtsp_password = None,
              cameras = Some [''front'' \<mapsto> \<lparr>ffmpeg_inputs = None\<rparr>]\<rparr>;
       b = \<lparr>config_answer = Inr (Some cfg), raw_answer = Inr NoData,
            probe_outcome = (\<lambda>u. Inr ())\<rparr>;
       p = \<lparr>config = None, lastConfigFetch = None, configRawJson = None,
            lastConfigRawJsonFetch = None\<rparr>
   in discoverBestConfiguredStreamUrlsAndProbe b example_settings ''front'' rerun_times False None
        p empty_storage =
      (Inl (ErrorObj ''Cannot read properties of undefined (reading 'forEach')''),
       \<lparr>config = Some cfg, lastConfigFetch = Some 61100, configRawJson = None,
        lastConfigRawJsonFetch = Some 61050\<rparr>,
       empty_storage, [FetchConfigRaw, FetchConfig])"
proof -
  let ?cfg = "\<lparr>go2rtc_streams = None, rtsp_username = None, rtsp_password = None,
              cameras = Some [''front'' \<mapsto> \<lparr>ffmpeg_inputs = None\<rparr>]\<rparr>"
  let ?b = "\<lparr>config_answer = Inr (Some ?cfg), raw_answer = Inr NoData,
            probe_outcome = (\<lambda>u::string. (Inr () :: thrown + unit))\<rparr>"
  let ?p = "\<lparr>config = None, lastConfigFetch = None, configRawJson = None,
            lastConfigRawJsonFetch = None\<rparr>"
  let ?p1 = "\<lparr>config = None, lastConfigFetch = None, configRawJson = None,
            lastConfigRawJsonFetch = Some 61050\<rparr>"
  let ?p2 = "\<lparr>config = Some ?cfg, lastConfigFetch = Some 61100, configRawJson = None,
            lastConfigRawJsonFetch = Some 61050\<rparr>"
  have h1: "getConfigurationRawJson ?b (t_raw rerun_times) (t_raw_stored rerun_times) ?p =
      (Inr None, ?p1, [FetchConfigRaw])"
    by (simp add: getConfigurationRawJson_def rerun_times_def)
  have h2: "getConfiguration ?b False (t_config rerun_times) (t_config_stored rerun_times) ?p1 =
      (Inr (Some ?cfg), ?p2, [FetchConfig])"
    by (simp add: getConfiguration_def rerun_times_def)
  have h3: "camera_inputs None (Some ?cfg) ''front'' = None"
    by (simp add: camera_inputs_def camera_of_def)
  from discovery_without_inputs_throws [OF h1 h2 h3, of example_settings None empty_storage]
  show ?thesis
    unfolding Let_def by simp
qed

section \<open>Properties of the probe normaliser\<close>

lemma truthy_not_nullish: "truthy x \<Longrightarrow> \<not> nullish x"
  by (cases x) simp_all

lemma read_ok: "\<not> nullish x \<Longrightarrow> \<exists>v. read x k = Inr v"
  by (cases x) (simp_all add: read_def)

lemma opt_read_truthy:
  assumes "truthy (opt_read x k)"
  shows "\<not> nullish x" and "read x k = Inr (opt_read x k)"
  using assms by (cases x; simp add: opt_read_def read_def)+

lemma bind_ok:
  assumes "\<exists>x. m = Inr x" and "\<And>x. m = Inr x \<Longrightarrow> \<exists>y. f x = Inr y"
  shows "\<exists>y. bind m f = Inr y"
  using assms by (auto simp: bind_def)

lemma streams_or_format_ok: "\<not> nullish x \<Longrightarrow> \<exists>b. streams_or_format x = Inr b"
  unfolding streams_or_format_def
  by (intro bind_ok read_ok) (auto intro!: bind_ok read_ok)

lemma wrapped_ok: "\<exists>r. wrapped x = Inr r"
proof (cases "truthy (opt_read x ''stdout'')")
  case True
  from opt_read_truthy [OF True] have nn: "\<not> nullish x"
    and rd: "read x ''stdout'' = Inr (opt_read x ''stdout'')" by simp_all
  from streams_or_format_ok [OF truthy_not_nullish [OF True]]
  obtain b where "streams_or_format (opt_read x ''stdout'') = Inr b" by blast
  with True rd show ?thesis by (simp add: wrapped_def bind_def)
next
  case False
  then show ?thesis by (simp add: wrapped_def bind_def)
qed

lemma result_of_ok: "\<exists>r. result_of x = Inr r"
proof (cases "truthy (opt_read x ''result'')")
  case True
  from opt_read_truthy [OF True] have rd: "read x ''result'' = Inr (opt_read x ''result'')"
    by simp
  from read_ok [OF truthy_not_nullish [OF True], of "''stdout''"]
  obtain out where "read (opt_read x ''result'') ''stdout'' = Inr out" by blast
  with True rd show ?thesis by (simp add: result_of_def bind_def)
next
  case False
  then show ?thesis by (simp add: result_of_def)
qed

lemma or_else_ok:
  assumes "\<exists>r. m = Inr r" and "\<exists>r. n = Inr r"
  shows "\<exists>r. or_else m n = Inr r"
  using assms by (auto simp: or_else_def bind_def split: option.splits)

lemma array_shape_ok: "\<exists>r. array_shape data = Inr r"
  by (cases data) (simp_all add: array_shape_def wrapped_ok)

lemma stdout_shape_ok:
  assumes "truthy data"
  shows "\<exists>r. stdout_shape data = Inr r"
proof -
  from read_ok [OF truthy_not_nullish [OF assms], of "''stdout''"]
  obtain out where rd: "read data ''stdout'' = Inr out" by blast
  show ?thesis
  proof (cases "truthy out")
    case True
    from streams_or_format_ok [OF truthy_not_nullish [OF True]]
    obtain b where "streams_or_format out = Inr b" by blast
    with rd True show ?thesis by (simp add: stdout_shape_def bind_def)
  next
    case False
    with rd show ?thesis by (simp add: stdout_shape_def bind_def)
  qed
qed

lemma direct_shape_ok:
  assumes "truthy data"
  shows "\<exists>r. direct_shape data = Inr r"
proof -
  from streams_or_format_ok [OF truthy_not_nullish [OF assms]]
  obtain b where "streams_or_format data = Inr b" by blast
  then show ?thesis by (simp add: direct_shape_def bind_def)
qed

lemma result_shape_ok:
  assumes "truthy data"
  shows "\<exists>r. result_shape data = Inr r"
proof -
  from read_ok [OF truthy_not_nullish [OF assms], of "''result''"]
  obtain r where rd: "read data ''result'' = Inr r" by blast
  show ?thesis
  proof (cases "truthy r")
    case True
    from streams_or_format_ok [OF truthy_not_nullish [OF True]]
    obtain b where b: "streams_or_format r = Inr b" by blast
    from read_ok [OF truthy_not_nullish [OF True], of "''stdout''"]
    obtain out where out: "read r ''stdout'' = Inr out" by blast
    from rd True b out show ?thesis by (simp add: result_shape_def bind_def)
  next
    case False
    with rd show ?thesis by (simp add: result_shape_def bind_def)
  qed
qed

lemma keyed_shape_ok: "\<exists>r. keyed_shape u data = Inr r"
  by (simp add: keyed_shape_def Let_def or_else_ok wrapped_ok result_of_ok)

lemma first_value_shape_ok: "\<exists>r. first_value_shape data = Inr r"
  by (simp add: first_value_shape_def Let_def or_else_ok wrapped_ok result_of_ok)

lemma locate_payload_ok: "\<exists>payload. locate_payload u data = Inr payload"
proof (cases "truthy data")
  case False
  then show ?thesis by (simp add: locate_payload_def)
next
  case True
  have "\<exists>r. or_else (array_shape data)
                (or_else (stdout_shape data)
                (or_else (direct_shape data)
                (or_else (result_shape data)
                (or_else (keyed_shape u data)
                         (first_value_shape data))))) = Inr r"
    by (intro or_else_ok array_shape_ok stdout_shape_ok direct_shape_ok result_shape_ok
        keyed_shape_ok first_value_shape_ok True)
  with True show ?thesis by (auto simp: locate_payload_def bind_def)
qed

lemma locate_unrecognised:
  assumes "unrecognised u data"
  shows "locate_payload u data = Inr (JObj [])"
  using assms by (auto simp: unrecognised_def locate_payload_def or_else_def bind_def)

lemma summarize_empty: "summarize P u (JObj []) = Inr (empty_summary u (protocol_of P u))"
  by (simp add: summarize_def bind_def read_def own_def toArray_def opt_read_def
      string_field_def number_field_def float_field_def int_field_def codec_field_def
      parseFraction_def String_js_def parseFloat_js_def parseInt_js_def empty_summary_def)

lemmas probe_defs = locate_payload_def unrecognised_def array_shape_def stdout_shape_def
  direct_shape_def result_shape_def keyed_shape_def first_value_shape_def wrapped_def
  result_of_def or_else_def streams_or_format_def bind_def read_def opt_read_def own_def
  first_of_def first_value_def array_index_def digits_value_def digit_of_def



lemma fallback_logging_throws:
  assumes "frigate_failed P data" and "ffprobeLocalJson P u = Inl e"
    and "stringify_throws e = Some t"
  shows "ffprobeViaFrigate P (Inr data) u = (Inl t, [u])"
  using assms by (simp add: ffprobeViaFrigate_def local_fallback_def)



text \<open>
  \<^bold>\<open>C9\<close> (totality). Locating the payload never throws, whatever the response is: every
  property that is read is read from a value known not to be \<^verbatim>\<open>undefined\<close> or \<^verbatim>\<open>null\<close>. When no
  shape matches, the payload is the empty object, whose summary has no metadata: every field
  of \<^verbatim>\<open>format\<close>, \<^verbatim>\<open>video\<close> and \<^verbatim>\<open>audio\<close> is absent, and only the URL and its protocol are set.
  So for a response that matches no shape and carries no failure signal, \<^verbatim>\<open>ffprobeViaFrigate\<close>
  returns that summary and probes nothing locally.
\<close>

theorem normalization_total:
  "(\<exists>payload. locate_payload u data = Inr payload)
   \<and> (unrecognised u data \<longrightarrow>
        locate_payload u data = Inr (JObj [])
      \<and> summarize P u (JObj []) = Inr (empty_summary u (protocol_of P u))
      \<and> (\<not> frigate_failed P data \<longrightarrow>
           ffprobeViaFrigate P (Inr data) u = (Inr (empty_summary u (protocol_of P u)), [])))"
proof (intro conjI impI)
  show "\<exists>payload. locate_payload u data = Inr payload" by (rule locate_payload_ok)
next
  assume "unrecognised u data"
  then show "locate_payload u data = Inr (JObj [])" by (rule locate_unrecognised)
next
  show "summarize P u (JObj []) = Inr (empty_summary u (protocol_of P u))"
    by (rule summarize_empty)
next
  assume "unrecognised u data" and "\<not> frigate_failed P data"
  then show "ffprobeViaFrigate P (Inr data) u = (Inr (empty_summary u (protocol_of P u)), [])"
    by (simp add: ffprobeViaFrigate_def local_fallback_def locate_unrecognised summarize_empty
        bind_def)
qed

theorem normalization_total_witness:
  "unrecognised ''rtsp://10.0.0.5:554/main''
     (JArr [JObj [(''return_code'', JNum 0), (''stdout'', JStr ''Input/output error'')]])
   \<and> \<not> frigate_failed example_platform
     (JArr [JObj [(''return_code'', JNum 0), (''stdout'', JStr ''Input/output error'')]])
   \<and> ffprobeViaFrigate example_platform
       (Inr (JArr [JObj [(''return_code'', JNum 0), (''stdout'', JStr ''Input/output error'')]]))
       ''rtsp://10.0.0.5:554/main'' =
     (Inr (empty_summary ''rtsp://10.0.0.5:554/main'' (Some ''rtsp'')), [])"
proof -
  let ?u = "''rtsp://10.0.0.5:554/main''"
  let ?data = "JArr [JObj [(''return_code'', JNum 0), (''stdout'', JStr ''Input/output error'')]]"
  have un: "unrecognised ?u ?data"
    by (simp add: probe_defs Let_def)
  have ok: "\<not> frigate_failed example_platform ?data"
    by (simp add: frigate_failed_def Number_js_def opt_read_def read_def own_def first_of_def)
  have proto: "protocol_of example_platform ?u = Some ''rtsp''"
    by (simp add: protocol_of_def example_platform_def ends_with_def starts_with_def)
  from normalization_total [of ?u ?data example_platform] un ok
  have "ffprobeViaFrigate example_platform (Inr ?data) ?u =
      (Inr (empty_summary ?u (protocol_of example_platform ?u)), [])"
    by blast
  with un ok proto show ?thesis by simp
qed


end
